theory Spec2Isabelle
  imports Main "HOL-Library.Sublist"
begin

section \<open>JavaScript values\<close>

text \<open>
  The service modules handle parsed JSON of type \<open>any\<close>. A value is one of the
  JSON shapes or \<open>undefined\<close> (what reading a missing property gives). Numbers are
  integers here: the code only tests them for truthiness, copies them and prints them.
  An object is its property table; the first binding of a key is the one that is read.
\<close>

datatype jsval =
    JUndefined
  | JNull
  | JBool bool
  | JNum int
  | JStr string
  | JArr "jsval list"
  | JObj "(string \<times> jsval) list"

text \<open>\<open>if (v)\<close>, \<open>!v\<close>, \<open>a || b\<close>, \<open>a && b\<close>.\<close>

fun truthy :: "jsval \<Rightarrow> bool" where
  "truthy JUndefined = False"
| "truthy JNull = False"
| "truthy (JBool b) = b"
| "truthy (JNum n) = (n \<noteq> 0)"
| "truthy (JStr s) = (s \<noteq> [])"
| "truthy (JArr xs) = True"
| "truthy (JObj kvs) = True"

definition js_or :: "jsval \<Rightarrow> jsval \<Rightarrow> jsval" where
  "js_or a b = (if truthy a then a else b)"

definition js_and :: "jsval \<Rightarrow> jsval \<Rightarrow> jsval" where
  "js_and a b = (if truthy a then b else a)"

fun nullish :: "jsval \<Rightarrow> bool" where
  "nullish JUndefined = True"
| "nullish JNull = True"
| "nullish v = False"

text \<open>\<open>typeof v === 'string'\<close> and \<open>typeof v === 'object'\<close> (true of null and of arrays).\<close>

fun is_string :: "jsval \<Rightarrow> bool" where
  "is_string (JStr s) = True"
| "is_string v = False"

fun is_object :: "jsval \<Rightarrow> bool" where
  "is_object JNull = True"
| "is_object (JArr xs) = True"
| "is_object (JObj kvs) = True"
| "is_object v = False"

text \<open>
  \<open>v.k\<close> on a value that is neither null nor undefined. None of the property names the
  code reads is a built-in property of strings, numbers, booleans or arrays, so only an
  object can hold one.
\<close>

fun js_get :: "jsval \<Rightarrow> string \<Rightarrow> jsval" where
  "js_get (JObj kvs) k = (case map_of kvs k of Some v \<Rightarrow> v | None \<Rightarrow> JUndefined)"
| "js_get v k = JUndefined"

text \<open>\<open>v?.k\<close>: undefined when \<open>v\<close> is null or undefined.\<close>

definition js_optget :: "jsval \<Rightarrow> string \<Rightarrow> jsval" where
  "js_optget v k = (if nullish v then JUndefined else js_get v k)"

text \<open>\<open>v.k = x\<close> and \<open>delete v.k\<close> on an object.\<close>

fun js_set :: "jsval \<Rightarrow> string \<Rightarrow> jsval \<Rightarrow> jsval" where
  "js_set (JObj kvs) k x =
     JObj (if k \<in> fst ` set kvs then map (\<lambda>(k', v). if k' = k then (k', x) else (k', v)) kvs
           else kvs @ [(k, x)])"
| "js_set v k x = v"

fun js_delete :: "jsval \<Rightarrow> string \<Rightarrow> jsval" where
  "js_delete (JObj kvs) k = JObj (filter (\<lambda>(k', v). k' \<noteq> k) kvs)"
| "js_delete v k = v"

section \<open>Errors\<close>

text \<open>
  What a promise rejects with or a function throws: the value given to
  \<open>Promise.reject\<close>, an \<open>Error\<close> with its message, the engine's TypeError (reading a
  property of null or undefined, calling what is not a function), the SyntaxError of
  \<open>response.json()\<close> on a body that is not JSON, and the failure of \<open>fetch\<close> itself.
\<close>

datatype err =
    Rejection jsval
  | JsError string
  | TypeError
  | SyntaxError
  | NetworkError

text \<open>\<open>v.k\<close> on any value: a TypeError on null and undefined.\<close>

definition getprop :: "jsval \<Rightarrow> string \<Rightarrow> err + jsval" where
  "getprop v k = (if nullish v then Inl TypeError else Inr (js_get v k))"

section \<open>HTTP\<close>

datatype form_value =
    FText string
  | FJson jsval
  | FNumber int
  | FFile string string string

datatype req_body =
    NoBody
  | JsonBody jsval
  | FormBody "(string \<times> form_value) list"

record request =
  rq_method :: string
  rq_url :: string
  rq_headers :: "(string \<times> string) list"
  rq_body :: req_body

text \<open>A response: its status line and its body as \<open>response.json()\<close> parses it
  (\<open>None\<close> when the body is not JSON).\<close>

record response =
  status :: nat
  statusText :: string
  json_body :: "jsval option"

definition ok :: "response \<Rightarrow> bool" where
  "ok r = (200 \<le> status r \<and> status r \<le> 299)"

definition response_json :: "response \<Rightarrow> err + jsval" where
  "response_json r = (case json_body r of None \<Rightarrow> Inl SyntaxError | Some v \<Rightarrow> Inr v)"

text \<open>The backend answers a request or the request fails on the network.\<close>

type_synonym backend = "request \<Rightarrow> err + response"

text \<open>The device: the secure store and the requests issued so far, oldest first.\<close>

record world =
  secure :: "string \<rightharpoonup> string"
  sent :: "request list"

definition fetch :: "backend \<Rightarrow> request \<Rightarrow> world \<Rightarrow> (err + response) \<times> world" where
  "fetch be rq w = (be rq, w\<lparr>sent := sent w @ [rq]\<rparr>)"

subsection \<open>apiClient.ts\<close>

definition API_URL :: string where
  "API_URL = ''http://192.168.1.16:3000''"

definition headers :: "(string \<times> string) list" where
  "headers = [(''Content-Type'', ''application/json'')]"

definition handleResponse :: "response \<Rightarrow> err + jsval" where
  "handleResponse response =
     (case response_json response of
        Inl e \<Rightarrow> Inl e
      | Inr data \<Rightarrow>
          if \<not> ok response then
            (let error = js_or (js_and data (js_get data ''message'')) (JStr (statusText response))
             in Inl (Rejection error))
          else Inr data)"

text \<open>\<open>const response = await fetch(url, init); ... handleResponse(response)\<close>.\<close>

definition fetch_handle :: "backend \<Rightarrow> request \<Rightarrow> world \<Rightarrow> (err + jsval) \<times> world" where
  "fetch_handle be rq w =
     (case fetch be rq w of
        (Inl e, w') \<Rightarrow> (Inl e, w')
      | (Inr response, w') \<Rightarrow> (handleResponse response, w'))"

section \<open>The secure store\<close>

text \<open>
  expo-secure-store is a library, not code of the application. Its contract: a persistent
  table from keys to strings; a key is a non-empty string of letters, digits, \<open>.\<close>,
  \<open>-\<close> and \<open>_\<close>; storing a value that is not a string is refused.
\<close>

definition key_char :: "char \<Rightarrow> bool" where
  "key_char c = (let n = of_char c :: nat in
     (48 \<le> n \<and> n \<le> 57) \<or> (65 \<le> n \<and> n \<le> 90) \<or> (97 \<le> n \<and> n \<le> 122)
     \<or> n = 46 \<or> n = 45 \<or> n = 95)"

definition valid_key :: "string \<Rightarrow> bool" where
  "valid_key k = (k \<noteq> [] \<and> list_all key_char k)"

definition getItemAsync :: "string \<Rightarrow> world \<Rightarrow> err + string option" where
  "getItemAsync k w =
     (if valid_key k then Inr (secure w k) else Inl (JsError ''Invalid key provided to SecureStore''))"

definition setItemAsync :: "string \<Rightarrow> jsval \<Rightarrow> world \<Rightarrow> err + world" where
  "setItemAsync k v w =
     (if \<not> valid_key k then Inl (JsError ''Invalid key provided to SecureStore'')
      else case v of
        JStr s \<Rightarrow> Inr (w\<lparr>secure := (secure w)(k \<mapsto> s)\<rparr>)
      | _ \<Rightarrow> Inl (JsError ''Invalid value provided to SecureStore''))"

definition deleteItemAsync :: "string \<Rightarrow> world \<Rightarrow> err + world" where
  "deleteItemAsync k w =
     (if valid_key k then Inr (w\<lparr>secure := (secure w)(k := None)\<rparr>)
      else Inl (JsError ''Invalid key provided to SecureStore''))"

section \<open>authService.ts\<close>

definition TOKEN_KEY :: string where
  "TOKEN_KEY = ''userToken''"

text \<open>\<open>uri.split('/').pop()\<close>: what follows the last slash.\<close>

definition split_pop :: "string \<Rightarrow> string" where
  "split_pop s = rev (takeWhile (\<lambda>c. c \<noteq> CHR ''/'') (rev s))"

definition endsWith :: "string \<Rightarrow> string \<Rightarrow> bool" where
  "endsWith s x = suffix x s"

definition register ::
  "backend \<Rightarrow> string \<Rightarrow> string \<Rightarrow> string \<Rightarrow> string option \<Rightarrow> world \<Rightarrow> (err + jsval) \<times> world" where
  "register be email password role businessLicense w =
     (if role = ''salon'' \<and> businessLicense \<noteq> None \<and> businessLicense \<noteq> Some [] then
        (let lic = the businessLicense;
             fileName = (if split_pop lic \<noteq> [] then split_pop lic else ''license.jpg'');
             fileType = (if endsWith fileName ''.png'' then ''image/png''
                         else if endsWith fileName ''.pdf'' then ''application/pdf''
                         else ''image/jpeg'');
             formData = [(''email'', FText email), (''password'', FText password),
                         (''role'', FText role),
                         (''businessLicense'', FFile lic fileName fileType)]
         in fetch_handle be
              \<lparr>rq_method = ''POST'', rq_url = API_URL @ ''/auth/register'',
               rq_headers = [(''Accept'', ''application/json'')],
               rq_body = FormBody formData\<rparr> w)
      else
        fetch_handle be
          \<lparr>rq_method = ''POST'', rq_url = API_URL @ ''/auth/register'',
           rq_headers = headers,
           rq_body = JsonBody (JObj [(''email'', JStr email), (''password'', JStr password),
                                     (''role'', JStr role)])\<rparr> w)"

text \<open>\<open>if (data.token) await SecureStore.setItemAsync(TOKEN_KEY, data.token); return data\<close>,
  the tail that \<open>verifyOTP\<close> and \<open>login\<close> share.\<close>

definition store_token :: "jsval \<Rightarrow> world \<Rightarrow> (err + jsval) \<times> world" where
  "store_token data w =
     (case getprop data ''token'' of
        Inl e \<Rightarrow> (Inl e, w)
      | Inr token \<Rightarrow>
          if truthy token then
            (case setItemAsync TOKEN_KEY token w of
               Inl e \<Rightarrow> (Inl e, w)
             | Inr w' \<Rightarrow> (Inr data, w'))
          else (Inr data, w))"

definition verifyOTP_request :: "string \<Rightarrow> string \<Rightarrow> string \<Rightarrow> request" where
  "verifyOTP_request email otp role =
     \<lparr>rq_method = ''POST'', rq_url = API_URL @ ''/auth/verify-otp'',
      rq_headers = headers,
      rq_body = JsonBody (JObj [(''email'', JStr email), (''otp'', JStr otp),
                                (''role'', JStr role)])\<rparr>"

definition verifyOTP ::
  "backend \<Rightarrow> string \<Rightarrow> string \<Rightarrow> string \<Rightarrow> world \<Rightarrow> (err + jsval) \<times> world" where
  "verifyOTP be email otp role w =
     (case fetch_handle be (verifyOTP_request email otp role) w of
        (Inl e, w') \<Rightarrow> (Inl e, w')
      | (Inr data, w') \<Rightarrow> store_token data w')"

definition login_request :: "string \<Rightarrow> string \<Rightarrow> string \<Rightarrow> request" where
  "login_request email password role =
     \<lparr>rq_method = ''POST'', rq_url = API_URL @ ''/auth/login'',
      rq_headers = headers,
      rq_body = JsonBody (JObj [(''email'', JStr email), (''password'', JStr password),
                                (''role'', JStr role)])\<rparr>"

definition login ::
  "backend \<Rightarrow> string \<Rightarrow> string \<Rightarrow> string \<Rightarrow> world \<Rightarrow> (err + jsval) \<times> world" where
  "login be email password role w =
     (case fetch_handle be (login_request email password role) w of
        (Inl e, w') \<Rightarrow> (Inl e, w')
      | (Inr data, w') \<Rightarrow> store_token data w')"

definition logout :: "world \<Rightarrow> (err + unit) \<times> world" where
  "logout w =
     (case deleteItemAsync TOKEN_KEY w of
        Inl e \<Rightarrow> (Inl e, w)
      | Inr w' \<Rightarrow> (Inr (), w'))"

definition getToken :: "world \<Rightarrow> err + string option" where
  "getToken w = getItemAsync TOKEN_KEY w"

text \<open>\<open>!!token\<close>: a stored empty string counts as no token.\<close>

definition isAuthenticated :: "world \<Rightarrow> err + bool" where
  "isAuthenticated w =
     (case getItemAsync TOKEN_KEY w of
        Inl e \<Rightarrow> Inl e
      | Inr token \<Rightarrow> Inr (token \<noteq> None \<and> token \<noteq> Some []))"

definition getUserType :: "world \<Rightarrow> string option" where
  "getUserType w =
     (case getItemAsync ''userType'' w of
        Inl error \<Rightarrow> None
      | Inr userType \<Rightarrow> userType)"

definition setUserType :: "string \<Rightarrow> world \<Rightarrow> bool \<times> world" where
  "setUserType type w =
     (case setItemAsync ''userType'' (JStr type) w of
        Inl error \<Rightarrow> (False, w)
      | Inr w' \<Rightarrow> (True, w'))"

section \<open>Profile services\<close>

text \<open>\<open>const token = await getToken(); if (!token) throw new Error('Not authenticated')\<close>,
  the opening of every profile-service function.\<close>

definition require_token :: "world \<Rightarrow> err + string" where
  "require_token w =
     (case getToken w of
        Inl e \<Rightarrow> Inl e
      | Inr token \<Rightarrow>
          (case token of
             None \<Rightarrow> Inl (JsError ''Not authenticated'')
           | Some t \<Rightarrow> if t = [] then Inl (JsError ''Not authenticated'') else Inr t))"

definition bearer :: "string \<Rightarrow> string \<times> string" where
  "bearer token = (''Authorization'', ''Bearer '' @ token)"

text \<open>\<open>if (x) formData.append(name, x)\<close> for an optional string.\<close>

definition append_opt :: "string \<Rightarrow> string option \<Rightarrow> (string \<times> form_value) list" where
  "append_opt name x =
     (case x of None \<Rightarrow> [] | Some v \<Rightarrow> if v = [] then [] else [(name, FText v)])"

text \<open>An image attached to a form: the name after the last slash of its URI, or a default;
  \<open>image/png\<close> for a \<open>.png\<close> name, \<open>image/jpeg\<close> otherwise.\<close>

definition append_image ::
  "string \<Rightarrow> string \<Rightarrow> string option \<Rightarrow> (string \<times> form_value) list" where
  "append_image name dflt img =
     (case img of
        None \<Rightarrow> []
      | Some uri \<Rightarrow>
          if uri = [] then []
          else (let fileName = (if split_pop uri \<noteq> [] then split_pop uri else dflt);
                    fileType = (if endsWith fileName ''.png'' then ''image/png'' else ''image/jpeg'')
                in [(name, FFile uri fileName fileType)]))"

text \<open>\<open>x.uri || x.url || x.path || ''\<close> on an object that is not null.\<close>

definition uri_url_path :: "jsval \<Rightarrow> jsval" where
  "uri_url_path x = js_or (js_or (js_or (js_get x ''uri'') (js_get x ''url'')) (js_get x ''path'')) (JStr [])"

text \<open>\<open>if (data && data.k && typeof data.k === 'object') data.k = data.k.uri || ...\<close>.\<close>

definition normalize_image :: "string \<Rightarrow> jsval \<Rightarrow> jsval" where
  "normalize_image k data =
     (if truthy data \<and> truthy (js_get data k) \<and> is_object (js_get data k)
      then js_set data k (uri_url_path (js_get data k))
      else data)"

subsection \<open>userProfileService.ts\<close>

definition createUserProfile ::
  "backend \<Rightarrow> string \<Rightarrow> string option \<Rightarrow> string option \<Rightarrow> string option \<Rightarrow> world
     \<Rightarrow> (err + jsval) \<times> world" where
  "createUserProfile be fullName phone address faceImage w =
     (case require_token w of
        Inl e \<Rightarrow> (Inl e, w)
      | Inr token \<Rightarrow>
          (let formData = [(''fullName'', FText fullName)] @ append_opt ''phone'' phone
                   @ append_opt ''address'' address
                   @ append_image ''faceImage'' ''face_image.jpg'' faceImage
           in fetch_handle be
                \<lparr>rq_method = ''POST'', rq_url = API_URL @ ''/user-profile'',
                 rq_headers = [(''Accept'', ''application/json''), bearer token],
                 rq_body = FormBody formData\<rparr> w))"

definition getUserProfile :: "backend \<Rightarrow> world \<Rightarrow> (err + jsval) \<times> world" where
  "getUserProfile be w =
     (case require_token w of
        Inl e \<Rightarrow> (Inl e, w)
      | Inr token \<Rightarrow>
          (case fetch_handle be
                  \<lparr>rq_method = ''GET'', rq_url = API_URL @ ''/user-profile'',
                   rq_headers = headers @ [bearer token], rq_body = NoBody\<rparr> w of
             (Inl e, w') \<Rightarrow> (Inl e, w')
           | (Inr data, w') \<Rightarrow> (Inr (normalize_image ''faceImage'' data), w')))"

definition updateUserProfile ::
  "backend \<Rightarrow> string option \<Rightarrow> string option \<Rightarrow> string option \<Rightarrow> string option \<Rightarrow> world
     \<Rightarrow> (err + jsval) \<times> world" where
  "updateUserProfile be fullName phone address faceImage w =
     (case require_token w of
        Inl e \<Rightarrow> (Inl e, w)
      | Inr token \<Rightarrow>
          (let formData = append_opt ''fullName'' fullName @ append_opt ''phone'' phone
                   @ append_opt ''address'' address
                   @ append_image ''faceImage'' ''face_image.jpg'' faceImage
           in fetch_handle be
                \<lparr>rq_method = ''PUT'', rq_url = API_URL @ ''/user-profile'',
                 rq_headers = [(''Accept'', ''application/json''), bearer token],
                 rq_body = FormBody formData\<rparr> w))"

definition deleteUserProfile :: "backend \<Rightarrow> world \<Rightarrow> (err + jsval) \<times> world" where
  "deleteUserProfile be w =
     (case require_token w of
        Inl e \<Rightarrow> (Inl e, w)
      | Inr token \<Rightarrow>
          fetch_handle be
            \<lparr>rq_method = ''DELETE'', rq_url = API_URL @ ''/user-profile'',
             rq_headers = headers @ [bearer token], rq_body = NoBody\<rparr> w)"

text \<open>\<open>getImageUri(image: any): string\<close>. The result is whatever the chosen property
  holds, so the model returns a value.\<close>

definition getImageUri :: "jsval \<Rightarrow> jsval" where
  "getImageUri img =
     (if \<not> truthy img then JStr []
      else if is_string img then img
      else if is_object img then
        (if truthy (js_get img ''uri'') then js_get img ''uri''
         else if truthy (js_get img ''url'') then js_get img ''url''
         else if truthy (js_get img ''source'') then
           (if is_string (js_get img ''source'') then js_get img ''source''
            else js_or (js_optget (js_get img ''source'') ''uri'') (JStr []))
         else if truthy (js_get img ''path'') then js_get img ''path''
         else JStr [])
      else JStr [])"

subsection \<open>salonProfileService.ts\<close>

text \<open>Decimal digits of an array index, for the template \<open>portfolio_${index}.jpg\<close>.\<close>

fun nat_string :: "nat \<Rightarrow> string" where
  "nat_string n =
     (if n < 10 then [char_of (48 + n)]
      else nat_string (n div 10) @ [char_of (48 + n mod 10)])"

declare nat_string.simps [simp del]

definition portfolio_part :: "nat \<times> string \<Rightarrow> string \<times> form_value" where
  "portfolio_part p =
     (case p of (index, file) \<Rightarrow>
        (let fileName = (if split_pop file \<noteq> [] then split_pop file
                         else ''portfolio_'' @ nat_string index @ ''.jpg'');
             fileType = (if endsWith fileName ''.png'' then ''image/png''
                         else if endsWith fileName ''.mp4'' then ''video/mp4''
                         else ''image/jpeg'')
         in (''portfolio'', FFile file fileName fileType)))"

text \<open>\<open>if (portfolioFiles && portfolioFiles.length > 0) portfolioFiles.forEach(...)\<close>.\<close>

definition append_portfolio :: "string list option \<Rightarrow> (string \<times> form_value) list" where
  "append_portfolio portfolioFiles =
     (case portfolioFiles of
        None \<Rightarrow> []
      | Some files \<Rightarrow> map portfolio_part (enumerate 0 files))"

definition createSalonProfile ::
  "backend \<Rightarrow> string \<Rightarrow> string \<Rightarrow> string \<Rightarrow> string option \<Rightarrow> string list option \<Rightarrow> world
     \<Rightarrow> (err + jsval) \<times> world" where
  "createSalonProfile be name address phone description portfolioFiles w =
     (case require_token w of
        Inl e \<Rightarrow> (Inl e, w)
      | Inr token \<Rightarrow>
          (let formData = [(''name'', FText name), (''address'', FText address),
                           (''phone'', FText phone)]
                   @ append_opt ''description'' description
                   @ append_portfolio portfolioFiles
           in fetch_handle be
                \<lparr>rq_method = ''POST'', rq_url = API_URL @ ''/salon-profile'',
                 rq_headers = [(''Accept'', ''application/json''), bearer token],
                 rq_body = FormBody formData\<rparr> w))"

text \<open>A callback applied to each element in turn; the first throw ends the loop.\<close>

fun map_throwing :: "('a \<Rightarrow> err + 'b) \<Rightarrow> 'a list \<Rightarrow> err + 'b list" where
  "map_throwing f [] = Inr []"
| "map_throwing f (x # xs) =
     (case f x of
        Inl e \<Rightarrow> Inl e
      | Inr y \<Rightarrow> (case map_throwing f xs of Inl e \<Rightarrow> Inl e | Inr ys \<Rightarrow> Inr (y # ys)))"

definition portfolio_item :: "jsval \<Rightarrow> err + jsval" where
  "portfolio_item item =
     (if is_string item then Inr item
      else if is_object item then
        (if nullish item then Inl TypeError else Inr (uri_url_path item))
      else Inr (JStr []))"

definition normalize_portfolio :: "jsval \<Rightarrow> err + jsval" where
  "normalize_portfolio data =
     (if truthy data \<and> truthy (js_get data ''portfolio'') then
        (case js_get data ''portfolio'' of
           JArr items \<Rightarrow>
             (case map_throwing portfolio_item items of
                Inl e \<Rightarrow> Inl e
              | Inr uris \<Rightarrow> Inr (js_set data ''portfolio'' (JArr (filter truthy uris))))
         | _ \<Rightarrow> Inl TypeError)
      else Inr data)"

definition getSalonProfile :: "backend \<Rightarrow> world \<Rightarrow> (err + jsval) \<times> world" where
  "getSalonProfile be w =
     (case require_token w of
        Inl e \<Rightarrow> (Inl e, w)
      | Inr token \<Rightarrow>
          (case fetch_handle be
                  \<lparr>rq_method = ''GET'', rq_url = API_URL @ ''/salon-profile'',
                   rq_headers = headers @ [bearer token], rq_body = NoBody\<rparr> w of
             (Inl e, w') \<Rightarrow> (Inl e, w')
           | (Inr data, w') \<Rightarrow> (normalize_portfolio data, w')))"

definition updateSalonProfile ::
  "backend \<Rightarrow> string option \<Rightarrow> string option \<Rightarrow> string option \<Rightarrow> string option
     \<Rightarrow> string list option \<Rightarrow> world \<Rightarrow> (err + jsval) \<times> world" where
  "updateSalonProfile be name address phone description portfolioFiles w =
     (case require_token w of
        Inl e \<Rightarrow> (Inl e, w)
      | Inr token \<Rightarrow>
          (let formData = append_opt ''name'' name @ append_opt ''address'' address
                   @ append_opt ''phone'' phone @ append_opt ''description'' description
                   @ append_portfolio portfolioFiles
           in fetch_handle be
                \<lparr>rq_method = ''PUT'', rq_url = API_URL @ ''/salon-profile'',
                 rq_headers = [(''Accept'', ''application/json''), bearer token],
                 rq_body = FormBody formData\<rparr> w))"

definition deleteSalonProfile :: "backend \<Rightarrow> world \<Rightarrow> (err + jsval) \<times> world" where
  "deleteSalonProfile be w =
     (case require_token w of
        Inl e \<Rightarrow> (Inl e, w)
      | Inr token \<Rightarrow>
          fetch_handle be
            \<lparr>rq_method = ''DELETE'', rq_url = API_URL @ ''/salon-profile'',
             rq_headers = headers @ [bearer token], rq_body = NoBody\<rparr> w)"

subsection \<open>salonServiceService.ts\<close>

text \<open>\<open>if (n) formData.append(name, n.toString())\<close> for an optional number.\<close>

definition append_opt_number :: "string \<Rightarrow> int option \<Rightarrow> (string \<times> form_value) list" where
  "append_opt_number name x =
     (case x of None \<Rightarrow> [] | Some n \<Rightarrow> if n = 0 then [] else [(name, FNumber n)])"

definition createSalonService ::
  "backend \<Rightarrow> string \<Rightarrow> string list \<Rightarrow> int \<Rightarrow> int \<Rightarrow> string option \<Rightarrow> string option \<Rightarrow> world
     \<Rightarrow> (err + jsval) \<times> world" where
  "createSalonService be name category price duration description illustrationImage w =
     (case require_token w of
        Inl e \<Rightarrow> (Inl e, w)
      | Inr token \<Rightarrow>
          (let formData = [(''name'', FText name), (''category'', FJson (JArr (map JStr category))),
                           (''price'', FNumber price), (''duration'', FNumber duration)]
                   @ append_opt ''description'' description
                   @ append_image ''illustrationImage'' ''service.jpg'' illustrationImage
           in fetch_handle be
                \<lparr>rq_method = ''POST'', rq_url = API_URL @ ''/salon-profile/services'',
                 rq_headers = [(''Accept'', ''application/json''), bearer token],
                 rq_body = FormBody formData\<rparr> w))"

text \<open>The callback of \<open>data.map\<close> in \<open>getSalonServices\<close>: it reads a property of each
  element, so a null element throws.\<close>

definition normalize_service :: "jsval \<Rightarrow> err + jsval" where
  "normalize_service service =
     (if nullish service then Inl TypeError
      else Inr (normalize_image ''illustrationImage'' service))"

definition getSalonServices :: "backend \<Rightarrow> world \<Rightarrow> (err + jsval) \<times> world" where
  "getSalonServices be w =
     (case require_token w of
        Inl e \<Rightarrow> (Inl e, w)
      | Inr token \<Rightarrow>
          (case fetch_handle be
                  \<lparr>rq_method = ''GET'', rq_url = API_URL @ ''/salon-profile/services'',
                   rq_headers = headers @ [bearer token], rq_body = NoBody\<rparr> w of
             (Inl e, w') \<Rightarrow> (Inl e, w')
           | (Inr data, w') \<Rightarrow>
               (case data of
                  JArr services \<Rightarrow>
                    (case map_throwing normalize_service services of
                       Inl e \<Rightarrow> (Inl e, w')
                     | Inr services' \<Rightarrow> (Inr (JArr services'), w'))
                | _ \<Rightarrow> (Inr data, w'))))"

definition getSalonService :: "backend \<Rightarrow> string \<Rightarrow> world \<Rightarrow> (err + jsval) \<times> world" where
  "getSalonService be serviceId w =
     (case require_token w of
        Inl e \<Rightarrow> (Inl e, w)
      | Inr token \<Rightarrow>
          (case fetch_handle be
                  \<lparr>rq_method = ''GET'', rq_url = API_URL @ ''/salon-profile/services/'' @ serviceId,
                   rq_headers = headers @ [bearer token], rq_body = NoBody\<rparr> w of
             (Inl e, w') \<Rightarrow> (Inl e, w')
           | (Inr data, w') \<Rightarrow> (Inr (normalize_image ''illustrationImage'' data), w')))"

definition updateSalonService ::
  "backend \<Rightarrow> string \<Rightarrow> string option \<Rightarrow> string option \<Rightarrow> int option \<Rightarrow> int option
     \<Rightarrow> string list option \<Rightarrow> string option \<Rightarrow> world \<Rightarrow> (err + jsval) \<times> world" where
  "updateSalonService be serviceId name description price duration category illustrationImage w =
     (case require_token w of
        Inl e \<Rightarrow> (Inl e, w)
      | Inr token \<Rightarrow>
          (let formData = append_opt ''name'' name @ append_opt ''description'' description
                   @ append_opt_number ''price'' price @ append_opt_number ''duration'' duration
                   @ (case category of None \<Rightarrow> []
                      | Some c \<Rightarrow> [(''category'', FJson (JArr (map JStr c)))])
                   @ append_image ''illustrationImage'' ''service.jpg'' illustrationImage
           in fetch_handle be
                \<lparr>rq_method = ''PUT'', rq_url = API_URL @ ''/salon-profile/services/'' @ serviceId,
                 rq_headers = [(''Accept'', ''application/json''), bearer token],
                 rq_body = FormBody formData\<rparr> w))"

definition deleteSalonService :: "backend \<Rightarrow> string \<Rightarrow> world \<Rightarrow> (err + jsval) \<times> world" where
  "deleteSalonService be serviceId w =
     (case require_token w of
        Inl e \<Rightarrow> (Inl e, w)
      | Inr token \<Rightarrow>
          fetch_handle be
            \<lparr>rq_method = ''DELETE'', rq_url = API_URL @ ''/salon-profile/services/'' @ serviceId,
             rq_headers = headers @ [bearer token], rq_body = NoBody\<rparr> w)"

section \<open>filterService.ts\<close>

record ServiceFilterParams =
  category :: "string option"
  minPrice :: "int option"
  maxPrice :: "int option"
  location :: "string option"

text \<open>\<open>JSON.stringify(filterParams)\<close> leaves out the fields that are undefined.\<close>

definition filterParams_json :: "ServiceFilterParams \<Rightarrow> jsval" where
  "filterParams_json p =
     JObj ((case category p of None \<Rightarrow> [] | Some c \<Rightarrow> [(''category'', JStr c)])
         @ (case minPrice p of None \<Rightarrow> [] | Some n \<Rightarrow> [(''minPrice'', JNum n)])
         @ (case maxPrice p of None \<Rightarrow> [] | Some n \<Rightarrow> [(''maxPrice'', JNum n)])
         @ (case location p of None \<Rightarrow> [] | Some l \<Rightarrow> [(''location'', JStr l)]))"

text \<open>\<open>{...headers, ...(token ? { 'Authorization': `Bearer ${token}` } : {})}\<close>.\<close>

definition optional_auth :: "string option \<Rightarrow> (string \<times> string) list" where
  "optional_auth token =
     headers @ (case token of None \<Rightarrow> [] | Some t \<Rightarrow> if t = [] then [] else [bearer t])"

text \<open>\<open>profile?.portfolio?.map((img) => getImageUri(img)) || []\<close>: skipped when the
  portfolio is null or undefined, a TypeError when it is anything else but an array.\<close>

definition salon_portfolio :: "jsval \<Rightarrow> err + jsval" where
  "salon_portfolio profile =
     (let portfolio = js_optget profile ''portfolio''
      in if nullish portfolio then Inr (JArr [])
         else (case portfolio of
                 JArr imgs \<Rightarrow> Inr (js_or (JArr (map getImageUri imgs)) (JArr []))
               | _ \<Rightarrow> Inl TypeError))"

text \<open>The callback of \<open>data.services.map\<close>, the same in \<open>filterServices\<close> and
  \<open>searchServices\<close>.\<close>

definition process_service :: "jsval \<Rightarrow> err + jsval" where
  "process_service service =
     (case getprop service ''illustrationImage'' of
        Inl e \<Rightarrow> Inl e
      | Inr illustrationImage \<Rightarrow>
          (let service1 = (if truthy illustrationImage
                           then js_set service ''illustrationImage'' (getImageUri illustrationImage)
                           else service);
               Salon = js_get service1 ''Salon''
           in if truthy Salon then
                (let SalonProfile = js_get Salon ''SalonProfile''
                 in case salon_portfolio SalonProfile of
                      Inl e \<Rightarrow> Inl e
                    | Inr portfolio \<Rightarrow>
                        Inr (js_delete
                               (js_set service1 ''salon''
                                  (JObj [(''id'', js_get Salon ''id''),
                                         (''name'', js_or (js_optget SalonProfile ''name'') (JStr [])),
                                         (''address'', js_or (js_optget SalonProfile ''address'') (JStr [])),
                                         (''phone'', js_optget SalonProfile ''phone''),
                                         (''description'', js_optget SalonProfile ''description''),
                                         (''portfolio'', portfolio),
                                         (''rating'', js_get Salon ''rating'')]))
                               ''Salon''))
              else Inr service1))"

text \<open>\<open>if (data && data.services) return data.services.map(...); return []\<close>.\<close>

definition process_services :: "jsval \<Rightarrow> err + jsval" where
  "process_services data =
     (if truthy data \<and> truthy (js_get data ''services'') then
        (case js_get data ''services'' of
           JArr services \<Rightarrow>
             (case map_throwing process_service services of
                Inl e \<Rightarrow> Inl e
              | Inr services' \<Rightarrow> Inr (JArr services'))
         | _ \<Rightarrow> Inl TypeError)
      else Inr (JArr []))"

definition filter_request :: "ServiceFilterParams \<Rightarrow> string option \<Rightarrow> request" where
  "filter_request filterParams token =
     \<lparr>rq_method = ''POST'', rq_url = API_URL @ ''/services/filter'',
      rq_headers = optional_auth token,
      rq_body = JsonBody (filterParams_json filterParams)\<rparr>"

definition filterServices ::
  "backend \<Rightarrow> ServiceFilterParams \<Rightarrow> world \<Rightarrow> (err + jsval) \<times> world" where
  "filterServices be filterParams w =
     (case getToken w of
        Inl e \<Rightarrow> (Inl e, w)
      | Inr token \<Rightarrow>
          (case fetch_handle be (filter_request filterParams token) w of
             (Inl e, w') \<Rightarrow> (Inl e, w')
           | (Inr data, w') \<Rightarrow> (process_services data, w')))"

text \<open>White space as \<open>trim()\<close> and the regular expression class \<open>\s\<close> see it, among the
  characters of the model: tab, line feed, vertical tab, form feed, carriage return, space,
  no-break space.\<close>

definition js_space :: "char \<Rightarrow> bool" where
  "js_space c = (let n = of_char c :: nat in (9 \<le> n \<and> n \<le> 13) \<or> n = 32 \<or> n = 160)"

definition trim :: "string \<Rightarrow> string" where
  "trim s = rev (dropWhile js_space (rev (dropWhile js_space s)))"

definition search_request :: "string \<Rightarrow> string option \<Rightarrow> request" where
  "search_request keyword token =
     \<lparr>rq_method = ''POST'', rq_url = API_URL @ ''/services/search'',
      rq_headers = optional_auth token,
      rq_body = JsonBody (JObj [(''keyword'', JStr (trim keyword))])\<rparr>"

definition searchServices :: "backend \<Rightarrow> string \<Rightarrow> world \<Rightarrow> (err + jsval) \<times> world" where
  "searchServices be keyword w =
     (if keyword = [] \<or> trim keyword = [] then (Inr (JArr []), w)
      else
        (case getToken w of
           Inl e \<Rightarrow> (Inl e, w)
         | Inr token \<Rightarrow>
             (case fetch_handle be (search_request keyword token) w of
                (Inl e, w') \<Rightarrow> (Inl e, w')
              | (Inr data, w') \<Rightarrow> (process_services data, w'))))"

section \<open>Shapes of filter results\<close>

text \<open>A record of the \<open>services\<close> array as the backend is meant to send it: an object
  whose nested salon profile has a list for its portfolio, or none.\<close>

definition well_shaped :: "jsval \<Rightarrow> bool" where
  "well_shaped service =
     (case service of
        JObj kvs \<Rightarrow>
          (case js_get (js_get (js_get service ''Salon'') ''SalonProfile'') ''portfolio'' of
             JUndefined \<Rightarrow> True
           | JNull \<Rightarrow> True
           | JArr imgs \<Rightarrow> True
           | _ \<Rightarrow> False)
      | _ \<Rightarrow> False)"

text \<open>The two parts of the \<open>map\<close> callback in filterService.ts, named for the proofs: the
  record with its illustration image normalised, and the flat \<open>salon\<close> object built from
  the nested \<open>Salon\<close>.\<close>

definition flat_salon :: "jsval \<Rightarrow> jsval \<Rightarrow> jsval" where
  "flat_salon s p =
     JObj [(''id'', js_get (js_get s ''Salon'') ''id''),
           (''name'', js_or (js_get (js_get (js_get s ''Salon'') ''SalonProfile'') ''name'') (JStr [])),
           (''address'', js_or (js_get (js_get (js_get s ''Salon'') ''SalonProfile'') ''address'') (JStr [])),
           (''phone'', js_get (js_get (js_get s ''Salon'') ''SalonProfile'') ''phone''),
           (''description'', js_get (js_get (js_get s ''Salon'') ''SalonProfile'') ''description''),
           (''portfolio'', p),
           (''rating'', js_get (js_get s ''Salon'') ''rating'')]"

definition with_image :: "jsval \<Rightarrow> jsval" where
  "with_image s =
     (if truthy (js_get s ''illustrationImage'')
      then js_set s ''illustrationImage'' (getImageUri (js_get s ''illustrationImage'')) else s)"

section \<open>Session operations\<close>

text \<open>
  What the application does with the session: the reads and writes of authService.ts.
  A read leaves the device as it is; the other operations leave it as the function they
  call does. A run performs a list of operations in order.
\<close>

datatype session_op =
    GetToken
  | IsAuthenticated
  | GetUserType
  | SetUserType string
  | Logout
  | Login backend string string string
  | VerifyOTP backend string string string

fun perform :: "session_op \<Rightarrow> world \<Rightarrow> world" where
  "perform GetToken w = w"
| "perform IsAuthenticated w = w"
| "perform GetUserType w = w"
| "perform (SetUserType type) w = snd (setUserType type w)"
| "perform Logout w = snd (logout w)"
| "perform (Login be email password role) w = snd (login be email password role w)"
| "perform (VerifyOTP be email otp role) w = snd (verifyOTP be email otp role w)"

fun writes_token :: "session_op \<Rightarrow> bool" where
  "writes_token Logout = True"
| "writes_token (Login be email password role) = True"
| "writes_token (VerifyOTP be email otp role) = True"
| "writes_token op = False"

fun writes_role :: "session_op \<Rightarrow> bool" where
  "writes_role (SetUserType type) = True"
| "writes_role op = False"

fun perform_all :: "session_op list \<Rightarrow> world \<Rightarrow> world" where
  "perform_all [] w = w"
| "perform_all (op # ops) w = perform_all ops (perform op w)"

section \<open>Profile operations\<close>

text \<open>The thirteen functions of the three profile-service modules, as one family.\<close>

datatype profile_op =
    CreateUserProfile string "string option" "string option" "string option"
  | GetUserProfile
  | UpdateUserProfile "string option" "string option" "string option" "string option"
  | DeleteUserProfile
  | CreateSalonProfile string string string "string option" "string list option"
  | GetSalonProfile
  | UpdateSalonProfile "string option" "string option" "string option" "string option"
      "string list option"
  | DeleteSalonProfile
  | CreateSalonService string "string list" int int "string option" "string option"
  | GetSalonServices
  | GetSalonService string
  | UpdateSalonService string "string option" "string option" "int option" "int option"
      "string list option" "string option"
  | DeleteSalonService string

fun call :: "backend \<Rightarrow> profile_op \<Rightarrow> world \<Rightarrow> (err + jsval) \<times> world" where
  "call be (CreateUserProfile fullName phone address faceImage) w =
     createUserProfile be fullName phone address faceImage w"
| "call be GetUserProfile w = getUserProfile be w"
| "call be (UpdateUserProfile fullName phone address faceImage) w =
     updateUserProfile be fullName phone address faceImage w"
| "call be DeleteUserProfile w = deleteUserProfile be w"
| "call be (CreateSalonProfile name address phone description portfolioFiles) w =
     createSalonProfile be name address phone description portfolioFiles w"
| "call be GetSalonProfile w = getSalonProfile be w"
| "call be (UpdateSalonProfile name address phone description portfolioFiles) w =
     updateSalonProfile be name address phone description portfolioFiles w"
| "call be DeleteSalonProfile w = deleteSalonProfile be w"
| "call be (CreateSalonService name cats price duration description illustrationImage) w =
     createSalonService be name cats price duration description illustrationImage w"
| "call be GetSalonServices w = getSalonServices be w"
| "call be (GetSalonService serviceId) w = getSalonService be serviceId w"
| "call be (UpdateSalonService serviceId name description price duration cats
              illustrationImage) w =
     updateSalonService be serviceId name description price duration cats
       illustrationImage w"
| "call be (DeleteSalonService serviceId) w = deleteSalonService be serviceId w"

text \<open>A property that holds a string, or nothing that counts (absent, null, empty).\<close>

definition string_or_absent :: "jsval \<Rightarrow> bool" where
  "string_or_absent v = (is_string v \<or> \<not> truthy v)"

section \<open>Screens\<close>

text \<open>
  A handler of a screen runs on the values the form fields hold when it is called and
  on what the screen shows: its error texts, its loading flag, the alerts raised and
  the route the router was told to replace the screen with. The general error holds
  whatever value the handler sets it to.
\<close>

record screen =
  emailError :: string
  passwordError :: string
  generalError :: jsval
  isLoading :: bool
  route :: "string option"

record register_screen = screen +
  confirmPasswordError :: string
  licenseError :: string
  alerts :: "string list"

text \<open>\<open>/^[^\s@]+@[^\s@]+\.[^\s@]+$/.test(s)\<close>: an \<open>@\<close> at some position i and a dot at some
  later position j, with one or more characters that are neither white space nor \<open>@\<close>
  before i, between i and j, and after j.\<close>

definition plain :: "string \<Rightarrow> bool" where
  "plain s = (s \<noteq> [] \<and> list_all (\<lambda>c. \<not> js_space c \<and> c \<noteq> CHR ''@'') s)"

definition emailRegex_test :: "string \<Rightarrow> bool" where
  "emailRegex_test s =
     list_ex (\<lambda>i. list_ex (\<lambda>j.
         s ! i = CHR ''@'' \<and> s ! j = CHR ''.'' \<and>
         plain (take i s) \<and> plain (take (j - (i + 1)) (drop (i + 1) s)) \<and> plain (drop (j + 1) s))
       [i + 1 ..< length s]) [0 ..< length s]"

definition validateEmail :: "string \<Rightarrow> 'a screen_scheme \<Rightarrow> bool \<times> 'a screen_scheme" where
  "validateEmail email s =
     (if email = [] then (False, s\<lparr>emailError := ''Email is required''\<rparr>)
      else if \<not> emailRegex_test email then
        (False, s\<lparr>emailError := ''Please enter a valid email address''\<rparr>)
      else (True, s))"

text \<open>The text of a caught error:
  \<open>typeof error === 'string' ? error : error?.message || fallback\<close>. The engine's own
  errors carry the engine's message.\<close>

definition engine_message :: "err \<Rightarrow> string" where
  "engine_message error =
     (case error of
        TypeError \<Rightarrow> ''Cannot read property of null''
      | SyntaxError \<Rightarrow> ''JSON Parse error''
      | NetworkError \<Rightarrow> ''Network request failed''
      | JsError m \<Rightarrow> m
      | Rejection v \<Rightarrow> [])"

definition error_text :: "string \<Rightarrow> err \<Rightarrow> jsval" where
  "error_text fallback error =
     (case error of
        Rejection v \<Rightarrow>
          if is_string v then v else js_or (js_optget v ''message'') (JStr fallback)
      | _ \<Rightarrow> js_or (JStr (engine_message error)) (JStr fallback))"

text \<open>\<open>errorMessage.includes(x)\<close>: a substring test on a string, a membership test on an
  array; anything else has no such method.\<close>

definition has_includes :: "jsval \<Rightarrow> bool" where
  "has_includes v = (case v of JStr s \<Rightarrow> True | JArr xs \<Rightarrow> True | _ \<Rightarrow> False)"

definition js_includes :: "jsval \<Rightarrow> string \<Rightarrow> bool" where
  "js_includes v x = (case v of JStr s \<Rightarrow> sublist x s | JArr xs \<Rightarrow> JStr x \<in> set xs | _ \<Rightarrow> False)"

text \<open>\<open>`${v}`\<close> in a template. How a number prints is the engine's matter (a double
  prints in decimal or in exponent form), so the printer of numbers is a parameter.\<close>

fun join_comma :: "string list \<Rightarrow> string" where
  "join_comma [] = []"
| "join_comma [x] = x"
| "join_comma (x # y # ys) = x @ '','' @ join_comma (y # ys)"

fun js_String :: "(int \<Rightarrow> string) \<Rightarrow> jsval \<Rightarrow> string" where
  "js_String numberText JUndefined = ''undefined''"
| "js_String numberText JNull = ''null''"
| "js_String numberText (JBool b) = (if b then ''true'' else ''false'')"
| "js_String numberText (JNum n) = numberText n"
| "js_String numberText (JStr s) = s"
| "js_String numberText (JArr xs) =
     join_comma (map (\<lambda>x. if nullish x then [] else js_String numberText x) xs)"
| "js_String numberText (JObj kvs) = ''[object Object]''"

subsection \<open>login.tsx\<close>

definition login_validatePassword :: "string \<Rightarrow> 'a screen_scheme \<Rightarrow> bool \<times> 'a screen_scheme" where
  "login_validatePassword password s =
     (if password = [] then (False, s\<lparr>passwordError := ''Password is required''\<rparr>)
      else (True, s))"

text \<open>The body of the \<open>try\<close> in \<open>handleLogin\<close>.\<close>

definition handleLogin_try ::
  "(int \<Rightarrow> string) \<Rightarrow> backend \<Rightarrow> string \<Rightarrow> string \<Rightarrow> string \<Rightarrow> screen \<Rightarrow> world
     \<Rightarrow> (err + unit) \<times> screen \<times> world" where
  "handleLogin_try numberText be email password role s w =
     (case login be email password role w of
        (Inl e, w1) \<Rightarrow> (Inl e, s, w1)
      | (Inr response, w1) \<Rightarrow>
          if truthy response \<and> truthy (js_get response ''token'') then
            (let w2 = snd (setUserType role w1);
                 actualRole = js_or (js_get response ''role'') (JStr role)
             in if actualRole \<noteq> JStr role then
                  (Inl (JsError (''This account is registered as a ''
                                 @ js_String numberText actualRole
                                 @ ''. Please select the correct user type.'')), s, w2)
                else if role = ''consumer'' then (Inr (), s\<lparr>route := Some ''/(consumerTabs)''\<rparr>, w2)
                else if role = ''salon'' then (Inr (), s\<lparr>route := Some ''/salonTabs''\<rparr>, w2)
                else (Inl (JsError ''Unknown user type''), s, w2))
          else (Inl (JsError ''Login failed. Please check your credentials.''), s, w1))"

text \<open>The \<open>catch\<close> of \<open>handleLogin\<close>.\<close>

definition handleLogin_catch :: "err \<Rightarrow> screen \<Rightarrow> err + screen" where
  "handleLogin_catch error s =
     (let errorMessage = error_text ''An error occurred'' error
      in if \<not> has_includes errorMessage then Inl TypeError
         else if js_includes errorMessage ''user not found'' \<or> js_includes errorMessage ''no user found''
           then Inr (s\<lparr>emailError := ''No account found with this email''\<rparr>)
         else if js_includes errorMessage ''incorrect password'' \<or> js_includes errorMessage ''wrong password''
           then Inr (s\<lparr>passwordError := ''Incorrect password''\<rparr>)
         else if js_includes errorMessage ''not verified''
           then Inr (s\<lparr>generalError := JStr
                  ''Account not verified. Please check your email for verification instructions.''\<rparr>)
         else if js_includes errorMessage ''wrong user type'' \<or> js_includes errorMessage ''registered as''
           then Inr (s\<lparr>generalError := errorMessage\<rparr>)
         else if js_includes errorMessage ''network'' \<or> js_includes errorMessage ''connection''
           then Inr (s\<lparr>generalError :=
                  JStr ''Network error. Please check your internet connection.''\<rparr>)
         else Inr (s\<lparr>generalError :=
                  JStr ''Login failed. Please check your credentials and try again.''\<rparr>))"

definition handleLogin ::
  "(int \<Rightarrow> string) \<Rightarrow> backend \<Rightarrow> string \<Rightarrow> string \<Rightarrow> string \<Rightarrow> screen \<Rightarrow> world
     \<Rightarrow> (err + unit) \<times> screen \<times> world" where
  "handleLogin numberText be email password role s w =
     (let s0 = s\<lparr>emailError := [], passwordError := [], generalError := JStr []\<rparr>;
          (isEmailValid, s1) = validateEmail email s0;
          (isPasswordValid, s2) = login_validatePassword password s1
      in if \<not> isEmailValid \<or> \<not> isPasswordValid then (Inr (), s2, w)
         else
           (case handleLogin_try numberText be email password role (s2\<lparr>isLoading := True\<rparr>) w of
              (Inr u, s3, w') \<Rightarrow> (Inr (), s3\<lparr>isLoading := False\<rparr>, w')
            | (Inl error, s3, w') \<Rightarrow>
                (case handleLogin_catch error s3 of
                   Inl e \<Rightarrow> (Inl e, s3\<lparr>isLoading := False\<rparr>, w')
                 | Inr s4 \<Rightarrow> (Inr (), s4\<lparr>isLoading := False\<rparr>, w'))))"

subsection \<open>The registration screen with inline errors\<close>

definition register_validatePassword ::
  "string \<Rightarrow> 'a screen_scheme \<Rightarrow> bool \<times> 'a screen_scheme" where
  "register_validatePassword password s =
     (if password = [] then (False, s\<lparr>passwordError := ''Password is required''\<rparr>)
      else if length password < 6 then
        (False, s\<lparr>passwordError := ''Password must be at least 6 characters long''\<rparr>)
      else (True, s))"

definition validateConfirmPassword ::
  "string \<Rightarrow> string \<Rightarrow> register_screen \<Rightarrow> bool \<times> register_screen" where
  "validateConfirmPassword pwd confirmPwd s =
     (if pwd \<noteq> [] \<and> confirmPwd \<noteq> [] \<and> pwd \<noteq> confirmPwd then
        (False, s\<lparr>confirmPasswordError := ''Passwords do not match''\<rparr>)
      else (True, s\<lparr>confirmPasswordError := []\<rparr>))"

definition validateLicense ::
  "bool \<Rightarrow> string option \<Rightarrow> register_screen \<Rightarrow> bool \<times> register_screen" where
  "validateLicense isSalon businessLicense s =
     (if isSalon \<and> (businessLicense = None \<or> businessLicense = Some []) then
        (False, s\<lparr>licenseError := ''Business license is required for salon registration''\<rparr>)
      else (True, s))"

text \<open>The effect that follows every change of the role: \<open>isSalon\<close> is whether the role is
  \<open>salon\<close>, and another role drops the picked license.\<close>

definition role_effect :: "string \<Rightarrow> string option \<Rightarrow> bool \<times> string option" where
  "role_effect role businessLicense =
     (role = ''salon'', if role \<noteq> ''salon'' then None else businessLicense)"

definition handleRegister_try ::
  "backend \<Rightarrow> string \<Rightarrow> string \<Rightarrow> string \<Rightarrow> string option \<Rightarrow> register_screen \<Rightarrow> world
     \<Rightarrow> (err + unit) \<times> register_screen \<times> world" where
  "handleRegister_try be email password role businessLicense s w =
     (case register be email password role businessLicense w of
        (Inl e, w1) \<Rightarrow> (Inl e, s, w1)
      | (Inr response, w1) \<Rightarrow>
          (case getprop response ''otpSent'' of
             Inl e \<Rightarrow> (Inl e, s, w1)
           | Inr otpSent \<Rightarrow>
               if \<not> truthy otpSent then
                 (Inl (JsError ''Verification code could not be sent. Please try again.''), s, w1)
               else if role = ''salon'' then
                 (Inr (), s\<lparr>alerts := alerts s @ [''Registration Submitted'']\<rparr>, w1)
               else (Inr (), s\<lparr>alerts := alerts s @ [''Registration Successful'']\<rparr>, w1)))"

definition handleRegister_catch :: "err \<Rightarrow> register_screen \<Rightarrow> err + register_screen" where
  "handleRegister_catch error s =
     (let errorMessage = error_text ''Registration failed'' error
      in if \<not> has_includes errorMessage then Inl TypeError
         else if js_includes errorMessage ''already exists'' \<or> js_includes errorMessage ''already in use''
           then Inr (s\<lparr>emailError := ''An account with this email already exists''\<rparr>)
         else if js_includes errorMessage ''network'' \<or> js_includes errorMessage ''connection''
           then Inr (s\<lparr>generalError :=
                  JStr ''Network error. Please check your internet connection''\<rparr>)
         else if js_includes errorMessage ''license''
           then Inr (s\<lparr>licenseError :=
                  ''There was a problem with your business license. Please try uploading again''\<rparr>)
         else if js_includes errorMessage ''verification'' \<or> js_includes errorMessage ''OTP''
                 \<or> js_includes errorMessage ''code''
           then Inr (s\<lparr>generalError := errorMessage\<rparr>)
         else Inr (s\<lparr>generalError := errorMessage\<rparr>))"

definition handleRegister ::
  "backend \<Rightarrow> string \<Rightarrow> string \<Rightarrow> string \<Rightarrow> string \<Rightarrow> string option \<Rightarrow> bool
     \<Rightarrow> register_screen \<Rightarrow> world \<Rightarrow> (err + unit) \<times> register_screen \<times> world" where
  "handleRegister be email password confirmPassword role businessLicense isSalon s w =
     (let s0 = s\<lparr>emailError := [], passwordError := [], confirmPasswordError := [],
                 licenseError := [], generalError := JStr []\<rparr>;
          (isEmailValid, s1) = validateEmail email s0;
          (isPasswordValid, s2) = register_validatePassword password s1;
          (isConfirmPasswordValid, s3) = validateConfirmPassword password confirmPassword s2;
          (isLicenseValid, s4) = validateLicense isSalon businessLicense s3
      in if \<not> isEmailValid \<or> \<not> isPasswordValid \<or> \<not> isConfirmPasswordValid \<or> \<not> isLicenseValid
         then (Inr (), s4, w)
         else
           (case handleRegister_try be email password role businessLicense (s4\<lparr>isLoading := True\<rparr>) w of
              (Inr u, s5, w') \<Rightarrow> (Inr (), s5\<lparr>isLoading := False\<rparr>, w')
            | (Inl error, s5, w') \<Rightarrow>
                (case handleRegister_catch error s5 of
                   Inl e \<Rightarrow> (Inl e, s5\<lparr>isLoading := False\<rparr>, w')
                 | Inr s6 \<Rightarrow> (Inr (), s6\<lparr>isLoading := False\<rparr>, w'))))"

subsection \<open>app/(auth)/register.tsx\<close>

text \<open>The other registration screen reports through alerts: what it shows is the alerts
  raised, each with its title and message, its loading flag, whether the code input is
  shown, and the route the router was told to replace the screen with.\<close>

record alert_screen =
  tsx_alerts :: "(string \<times> string) list"
  tsx_isLoading :: bool
  tsx_showOtpInput :: bool
  tsx_route :: "string option"

definition alert :: "string \<Rightarrow> string \<Rightarrow> alert_screen \<Rightarrow> alert_screen" where
  "alert title message s = s\<lparr>tsx_alerts := tsx_alerts s @ [(title, message)]\<rparr>"

definition handleRegister_tsx ::
  "backend \<Rightarrow> string \<Rightarrow> string \<Rightarrow> string \<Rightarrow> string \<Rightarrow> string option \<Rightarrow> bool
     \<Rightarrow> alert_screen \<Rightarrow> world \<Rightarrow> alert_screen \<times> world" where
  "handleRegister_tsx be email password confirmPassword role businessLicense isSalon s w =
     (if email = [] \<or> password = [] \<or> confirmPassword = [] then
        (alert ''Error'' ''Please fill in all fields.'' s, w)
      else if password \<noteq> confirmPassword then
        (alert ''Error'' ''Passwords do not match.'' s, w)
      else if length password < 6 then
        (alert ''Error'' ''Password should be at least 6 characters long.'' s, w)
      else if isSalon \<and> (businessLicense = None \<or> businessLicense = Some []) then
        (alert ''Error'' ''Business license is required for salon registration.'' s, w)
      else
        (case register be email password role businessLicense w of
           (Inr response, w') \<Rightarrow>
             if role = ''salon'' then
               ((alert ''Success''
                   ''Salon registered! Your license will be reviewed. You will receive an email with verification instructions once approved.''
                   s)\<lparr>tsx_route := Some ''/(auth)/login'', tsx_isLoading := False\<rparr>, w')
             else
               ((alert ''Success''
                   ''Registration successful! Check your email for OTP verification.''
                   s)\<lparr>tsx_showOtpInput := True, tsx_isLoading := False\<rparr>, w')
         | (Inl error, w') \<Rightarrow>
             ((alert ''Error''
                 (case error of
                    Rejection (JStr message) \<Rightarrow> message
                  | _ \<Rightarrow> ''Failed to register. Please try again.'')
                 s)\<lparr>tsx_isLoading := False\<rparr>, w')))"

section \<open>Concrete environments\<close>

text \<open>The device after installation, and a backend that gives every request the same
  answer; the examples below run on them.\<close>

definition fresh :: world where
  "fresh = \<lparr>secure = Map.empty, sent = []\<rparr>"

definition always :: "response \<Rightarrow> backend" where
  "always r rq = Inr r"

definition answer :: "nat \<Rightarrow> string \<Rightarrow> jsval \<Rightarrow> response" where
  "answer code text data = \<lparr>status = code, statusText = text, json_body = Some data\<rparr>"

text \<open>A printer of integers in decimal. No example below prints a number.\<close>

definition decimal :: "int \<Rightarrow> string" where
  "decimal n = (if n < 0 then ''-'' @ nat_string (nat (- n)) else nat_string (nat n))"

definition blank_screen :: screen where
  "blank_screen = \<lparr>emailError = [], passwordError = [], generalError = JStr [], isLoading = False,
                   route = None\<rparr>"

definition blank_register_screen :: register_screen where
  "blank_register_screen =
     \<lparr>emailError = [], passwordError = [], generalError = JStr [], isLoading = False, route = None,
      confirmPasswordError = [], licenseError = [], alerts = []\<rparr>"

text \<open>A backend on which the account is a salon's: every login is answered with a token
  and the role \<open>salon\<close>.\<close>

definition salon_account :: backend where
  "salon_account =
     always (answer 200 ''OK'' (JObj [(''token'', JStr ''abc''), (''role'', JStr ''salon'')]))"

text \<open>A backend that refuses every login for its password.\<close>

definition wrong_password :: backend where
  "wrong_password =
     always (answer 401 ''Unauthorized'' (JObj [(''message'', JStr ''incorrect password'')]))"

definition haircut_a :: jsval where
  "haircut_a = JObj [(''id'', JStr ''s1''), (''name'', JStr ''Haircut''), (''price'', JNum 20),
     (''Salon'', JObj [(''id'', JStr ''a''), (''rating'', JNum 4),
        (''SalonProfile'', JObj [(''name'', JStr ''Salon A''), (''address'', JStr ''1 Main St'')])])]"

definition haircut_b :: jsval where
  "haircut_b = JObj [(''id'', JStr ''s2''), (''name'', JStr ''Haircut''), (''price'', JNum 25),
     (''Salon'', JObj [(''id'', JStr ''b''), (''rating'', JNum 5), (''SalonProfile'', JNull)])]"

definition haircut_params :: ServiceFilterParams where
  "haircut_params = \<lparr>category = Some ''Haircut'', minPrice = None, maxPrice = None, location = None\<rparr>"

section \<open>Properties\<close>

lemma valid_key_TOKEN_KEY: "valid_key TOKEN_KEY"
  by (simp add: valid_key_def TOKEN_KEY_def key_char_def)

lemma valid_key_userType: "valid_key ''userType''"
  by (simp add: valid_key_def key_char_def)

lemma valid_key_userToken: "valid_key ''userToken''"
  using valid_key_TOKEN_KEY by (simp add: TOKEN_KEY_def)

lemma getToken_eq: "getToken w = Inr (secure w ''userToken'')"
  by (simp add: getToken_def getItemAsync_def valid_key_TOKEN_KEY) (simp add: TOKEN_KEY_def)

lemma fetch_handle_world: "snd (fetch_handle be rq w) = w\<lparr>sent := sent w @ [rq]\<rparr>"
  by (simp add: fetch_handle_def fetch_def split: sum.splits)

lemma store_token_secure:
  "secure (snd (store_token data w)) =
     (case js_get data ''token'' of
        JStr t \<Rightarrow>
          if t \<noteq> [] \<and> \<not> nullish data then (secure w)(''userToken'' \<mapsto> t) else secure w
      | _ \<Rightarrow> secure w)"
  by (cases data; cases "js_get data ''token''")
     (auto simp add: store_token_def getprop_def setItemAsync_def valid_key_userToken TOKEN_KEY_def)

lemma store_token_sent: "sent (snd (store_token data w)) = sent w"
  by (auto simp add: store_token_def getprop_def setItemAsync_def valid_key_TOKEN_KEY
        split: jsval.splits)

lemma fetch_handle_secure: "secure (snd (fetch_handle be rq w)) = secure w"
  by (simp add: fetch_handle_world)

lemma fetch_handle_sent: "sent (snd (fetch_handle be rq w)) = sent w @ [rq]"
  by (simp add: fetch_handle_world)

lemma perform_keeps_token:
  "\<not> writes_token op \<Longrightarrow> secure (perform op w) ''userToken'' = secure w ''userToken''"
  by (cases op) (simp_all add: setUserType_def setItemAsync_def valid_key_userType)

lemma login_secure:
  "secure (snd (login be email password role w)) =
     (case fst (fetch_handle be (login_request email password role) w) of
        Inl e \<Rightarrow> secure w
      | Inr data \<Rightarrow> secure (snd (store_token data w)))"
  using fetch_handle_world [of be "login_request email password role" w]
  by (cases "fetch_handle be (login_request email password role) w")
     (auto simp add: login_def store_token_secure split: sum.splits jsval.splits)

lemma verifyOTP_secure:
  "secure (snd (verifyOTP be email otp role w)) =
     (case fst (fetch_handle be (verifyOTP_request email otp role) w) of
        Inl e \<Rightarrow> secure w
      | Inr data \<Rightarrow> secure (snd (store_token data w)))"
  using fetch_handle_world [of be "verifyOTP_request email otp role" w]
  by (cases "fetch_handle be (verifyOTP_request email otp role) w")
     (auto simp add: verifyOTP_def store_token_secure split: sum.splits jsval.splits)

lemma perform_keeps_role:
  "\<not> writes_role op \<Longrightarrow> secure (perform op w) ''userType'' = secure w ''userType''"
proof (cases op)
  case Logout
  then show ?thesis
    by (simp add: logout_def deleteItemAsync_def valid_key_userToken TOKEN_KEY_def)
next
  case (Login be email password role)
  then show ?thesis
    by (simp add: login_secure store_token_secure split: sum.splits jsval.splits)
next
  case (VerifyOTP be email otp role)
  then show ?thesis
    by (simp add: verifyOTP_secure store_token_secure split: sum.splits jsval.splits)
qed simp_all

lemma perform_all_keeps_token:
  "list_all (\<lambda>op. \<not> writes_token op) ops \<Longrightarrow>
     secure (perform_all ops w) ''userToken'' = secure w ''userToken''"
  by (induction ops arbitrary: w) (simp_all add: perform_keeps_token)

lemma perform_all_keeps_role:
  "list_all (\<lambda>op. \<not> writes_role op) ops \<Longrightarrow>
     secure (perform_all ops w) ''userType'' = secure w ''userType''"
  by (induction ops arbitrary: w) (simp_all add: perform_keeps_role)

lemma fetch_handle_ok:
  "be rq = Inr response \<Longrightarrow> ok response \<Longrightarrow> json_body response = Some data \<Longrightarrow>
     fetch_handle be rq w = (Inr data, w\<lparr>sent := sent w @ [rq]\<rparr>)"
  by (simp add: fetch_handle_def fetch_def handleResponse_def response_json_def)

lemma truthy_get_object: "truthy (js_get data k) \<Longrightarrow> truthy data"
  by (cases data) simp_all

subsection \<open>handleResponse\<close>

text \<open>
  C8, as stated, fails. A response whose body is not JSON is rejected with the parser's
  SyntaxError whatever its status, not with the status text; and a body whose \<open>message\<close>
  field is present but empty (or null, zero, false) is rejected with the status text, not
  with the field.
\<close>

theorem handleResponse_rejection_counterexample:
  "handleResponse \<lparr>status = 502, statusText = ''Bad Gateway'', json_body = None\<rparr>
     = Inl SyntaxError \<and>
   map_of [(''message'', JStr [])] ''message'' = Some (JStr []) \<and>
   handleResponse (answer 400 ''Bad Request'' (JObj [(''message'', JStr [])]))
     = Inl (Rejection (JStr ''Bad Request'')) \<and>
   handleResponse (answer 400 ''Bad Request'' (JObj [(''message'', JStr [])]))
     \<noteq> Inl (Rejection (JStr []))"
  by (simp add: handleResponse_def response_json_def ok_def js_or_def js_and_def answer_def)

text \<open>
  C8, amended: for every response whose body parses as JSON, \<open>handleResponse\<close> returns the
  parsed body when the status is 2xx; otherwise it rejects with the body's \<open>message\<close> field
  when that field is truthy, and with the response's status text when the field is absent
  or falsy. A response whose body does not parse is rejected with the SyntaxError of
  \<open>response.json()\<close>.
\<close>

theorem handleResponse_cases:
  "(json_body r = None \<longrightarrow> handleResponse r = Inl SyntaxError) \<and>
   (json_body r = Some data \<and> 200 \<le> status r \<and> status r \<le> 299 \<longrightarrow>
      handleResponse r = Inr data) \<and>
   (json_body r = Some data \<and> \<not> (200 \<le> status r \<and> status r \<le> 299) \<and>
    truthy (js_get data ''message'') \<longrightarrow>
      handleResponse r = Inl (Rejection (js_get data ''message''))) \<and>
   (json_body r = Some data \<and> \<not> (200 \<le> status r \<and> status r \<le> 299) \<and>
    \<not> truthy (js_get data ''message'') \<longrightarrow>
      handleResponse r = Inl (Rejection (JStr (statusText r))))"
  using truthy_get_object [of data "''message''"]
  by (auto simp add: handleResponse_def response_json_def ok_def js_or_def js_and_def)

theorem handleResponse_cases_witness:
  "handleResponse \<lparr>status = 204, statusText = ''No Content'', json_body = None\<rparr>
     = Inl SyntaxError \<and>
   handleResponse (answer 201 ''Created'' (JObj [(''otpSent'', JBool True)]))
     = Inr (JObj [(''otpSent'', JBool True)]) \<and>
   handleResponse (answer 409 ''Conflict'' (JObj [(''message'', JStr ''Email already exists'')]))
     = Inl (Rejection (JStr ''Email already exists'')) \<and>
   handleResponse (answer 500 ''Internal Server Error'' (JObj []))
     = Inl (Rejection (JStr ''Internal Server Error''))"
  using handleResponse_cases
          [of "\<lparr>status = 204, statusText = ''No Content'', json_body = None\<rparr>"]
        handleResponse_cases
          [of "answer 201 ''Created'' (JObj [(''otpSent'', JBool True)])"
              "JObj [(''otpSent'', JBool True)]"]
        handleResponse_cases
          [of "answer 409 ''Conflict'' (JObj [(''message'', JStr ''Email already exists'')])"
              "JObj [(''message'', JStr ''Email already exists'')]"]
        handleResponse_cases
          [of "answer 500 ''Internal Server Error'' (JObj [])" "JObj []"]
  by (simp add: answer_def)

subsection \<open>logout\<close>

text \<open>
  C3, as stated, fails: \<open>logout\<close> deletes the token only. After a role tag was saved,
  logout leaves it in the store.
\<close>

theorem logout_keeps_userType_counterexample:
  "getUserType (snd (logout (snd (setUserType ''salon'' fresh)))) = Some ''salon''"
  by (simp add: logout_def deleteItemAsync_def setUserType_def setItemAsync_def getUserType_def
        getItemAsync_def valid_key_TOKEN_KEY valid_key_userType fresh_def TOKEN_KEY_def)

text \<open>
  C3, amended: from every starting state of the store, \<open>logout\<close> completes, the token under
  \<open>userToken\<close> is absent afterwards, the role tag under \<open>userType\<close> is what it was, and no
  request is issued.
\<close>

theorem logout_clears_token_only:
  "fst (logout w) = Inr () \<and>
   secure (snd (logout w)) ''userToken'' = None \<and>
   secure (snd (logout w)) ''userType'' = secure w ''userType'' \<and>
   sent (snd (logout w)) = sent w"
  by (simp add: logout_def deleteItemAsync_def valid_key_TOKEN_KEY) (simp add: TOKEN_KEY_def)

subsection \<open>The session store keeps what was saved\<close>

text \<open>
  C7: after a save, every later load returns the saved value until the value is cleared
  or replaced. The token is saved by a \<open>login\<close> or a \<open>verifyOTP\<close> whose response carries it
  and loaded by \<open>getToken\<close>; it stays through every run of operations other than \<open>logout\<close>
  and a further \<open>login\<close> or \<open>verifyOTP\<close>. The role tag is saved by \<open>setUserType\<close> and loaded
  by \<open>getUserType\<close>; it stays through every run without a further \<open>setUserType\<close>.
\<close>

theorem session_store_roundtrip:
  "(be (login_request email password role) = Inr response \<and> ok response \<and>
    json_body response = Some data \<and> js_get data ''token'' = JStr token \<and> token \<noteq> [] \<and>
    list_all (\<lambda>op. \<not> writes_token op) ops \<longrightarrow>
      getToken (perform_all ops (perform (Login be email password role) w)) = Inr (Some token)) \<and>
   (be (verifyOTP_request email otp role) = Inr response' \<and> ok response' \<and>
    json_body response' = Some data' \<and> js_get data' ''token'' = JStr token' \<and> token' \<noteq> [] \<and>
    list_all (\<lambda>op. \<not> writes_token op) ops \<longrightarrow>
      getToken (perform_all ops (perform (VerifyOTP be email otp role) w)) = Inr (Some token')) \<and>
   (list_all (\<lambda>op. \<not> writes_role op) ops' \<longrightarrow>
      getUserType (perform_all ops' (perform (SetUserType type) w)) = Some type)"
proof (intro conjI impI)
  assume a: "be (login_request email password role) = Inr response \<and> ok response \<and>
    json_body response = Some data \<and> js_get data ''token'' = JStr token \<and> token \<noteq> [] \<and>
    list_all (\<lambda>op. \<not> writes_token op) ops"
  then have "\<not> nullish data" by (cases data) auto
  with a have "secure (perform (Login be email password role) w) ''userToken'' = Some token"
    by (simp add: login_def fetch_handle_ok store_token_secure)
  with a show "getToken (perform_all ops (perform (Login be email password role) w)) = Inr (Some token)"
    by (simp add: getToken_eq perform_all_keeps_token)
next
  assume a: "be (verifyOTP_request email otp role) = Inr response' \<and> ok response' \<and>
    json_body response' = Some data' \<and> js_get data' ''token'' = JStr token' \<and> token' \<noteq> [] \<and>
    list_all (\<lambda>op. \<not> writes_token op) ops"
  then have "\<not> nullish data'" by (cases data') auto
  with a have "secure (perform (VerifyOTP be email otp role) w) ''userToken'' = Some token'"
    by (simp add: verifyOTP_def fetch_handle_ok store_token_secure)
  with a show "getToken (perform_all ops (perform (VerifyOTP be email otp role) w)) = Inr (Some token')"
    by (simp add: getToken_eq perform_all_keeps_token)
next
  assume "list_all (\<lambda>op. \<not> writes_role op) ops'"
  then show "getUserType (perform_all ops' (perform (SetUserType type) w)) = Some type"
    by (simp add: getUserType_def getItemAsync_def valid_key_userType perform_all_keeps_role
          setUserType_def setItemAsync_def)
qed

theorem session_store_roundtrip_witness:
  "getToken (perform_all [GetToken, SetUserType ''salon'', IsAuthenticated, GetUserType]
      (perform (Login (always (answer 200 ''OK'' (JObj [(''token'', JStr ''abc'')])))
                  ''a@b.c'' ''secret'' ''salon'') fresh)) = Inr (Some ''abc'') \<and>
   getToken (perform_all [GetToken, SetUserType ''salon'', IsAuthenticated, GetUserType]
      (perform (VerifyOTP (always (answer 200 ''OK'' (JObj [(''token'', JStr ''abc'')])))
                  ''a@b.c'' ''123456'' ''salon'') fresh)) = Inr (Some ''abc'') \<and>
   getUserType (perform_all [GetUserType, Logout, GetToken]
      (perform (SetUserType ''salon'') fresh)) = Some ''salon''"
  using session_store_roundtrip
    [where be = "always (answer 200 ''OK'' (JObj [(''token'', JStr ''abc'')]))"
       and email = "''a@b.c''" and password = "''secret''" and otp = "''123456''"
       and role = "''salon''"
       and response = "answer 200 ''OK'' (JObj [(''token'', JStr ''abc'')])"
       and data = "JObj [(''token'', JStr ''abc'')]" and token = "''abc''"
       and response' = "answer 200 ''OK'' (JObj [(''token'', JStr ''abc'')])"
       and data' = "JObj [(''token'', JStr ''abc'')]" and token' = "''abc''"
       and ops = "[GetToken, SetUserType ''salon'', IsAuthenticated, GetUserType]"
       and w = fresh and ops' = "[GetUserType, Logout, GetToken]" and type = "''salon''"]
  by (simp add: always_def answer_def ok_def)

subsection \<open>searchServices\<close>

lemma trim_empty: "trim s = [] \<longleftrightarrow> list_all js_space s"
proof -
  have "(\<forall>c \<in> set (dropWhile js_space s). js_space c) \<longleftrightarrow> dropWhile js_space s = []"
  proof
    assume all: "\<forall>c \<in> set (dropWhile js_space s). js_space c"
    show "dropWhile js_space s = []"
    proof (rule ccontr)
      assume ne: "dropWhile js_space s \<noteq> []"
      then have "\<not> js_space (hd (dropWhile js_space s))" by (rule hd_dropWhile)
      moreover from ne have "hd (dropWhile js_space s) \<in> set (dropWhile js_space s)" by simp
      ultimately show False using all by blast
    qed
  next
    assume e: "dropWhile js_space s = []"
    show "\<forall>c \<in> set (dropWhile js_space s). js_space c" unfolding e by simp
  qed
  then show ?thesis by (simp add: trim_def list_all_iff)
qed

text \<open>
  C4: a keyword that is empty or all white space gives the empty array and leaves the
  device as it was, so no request is issued; every other keyword issues exactly one
  request, to the search endpoint.
\<close>

theorem searchServices_blank_keyword:
  "(list_all js_space keyword \<longrightarrow> searchServices be keyword w = (Inr (JArr []), w)) \<and>
   (\<not> list_all js_space keyword \<longrightarrow>
      sent (snd (searchServices be keyword w))
        = sent w @ [search_request keyword (secure w ''userToken'')] \<and>
      rq_url (search_request keyword (secure w ''userToken'')) = API_URL @ ''/services/search'')"
proof (intro conjI impI)
  assume "list_all js_space keyword"
  then show "searchServices be keyword w = (Inr (JArr []), w)"
    by (simp add: searchServices_def trim_empty)
next
  assume n: "\<not> list_all js_space keyword"
  then have "keyword \<noteq> []" "trim keyword \<noteq> []" by (auto simp add: trim_empty)
  then show "sent (snd (searchServices be keyword w))
        = sent w @ [search_request keyword (secure w ''userToken'')]"
    using fetch_handle_sent [of be "search_request keyword (secure w ''userToken'')" w]
    by (auto simp add: searchServices_def getToken_eq split: prod.splits sum.splits)
next
  show "rq_url (search_request keyword (secure w ''userToken'')) = API_URL @ ''/services/search''"
    by (simp add: search_request_def)
qed

theorem searchServices_blank_keyword_witness:
  "searchServices (always (answer 200 ''OK'' (JObj []))) ''   '' fresh = (Inr (JArr []), fresh) \<and>
   sent (snd (searchServices (always (answer 200 ''OK'' (JObj []))) ''nails'' fresh))
     = [search_request ''nails'' None]"
  using searchServices_blank_keyword
          [of "''   ''" "always (answer 200 ''OK'' (JObj []))" fresh]
        searchServices_blank_keyword
          [of "''nails''" "always (answer 200 ''OK'' (JObj []))" fresh]
  by (simp add: js_space_def fresh_def)

subsection \<open>verifyOTP and login write the token only when there is one\<close>

lemma fetch_handle_Inr:
  "fst (fetch_handle be rq w) = Inr data \<Longrightarrow>
     \<exists>response. be rq = Inr response \<and> ok response \<and> json_body response = Some data"
  by (auto simp add: fetch_handle_def fetch_def handleResponse_def response_json_def
        split: sum.splits option.splits if_splits)

lemma store_token_changes:
  "secure (snd (store_token data w)) \<noteq> secure w \<Longrightarrow> truthy (js_get data ''token'')"
  by (auto simp add: store_token_secure split: jsval.splits if_splits)

lemma store_token_no_token:
  "\<not> nullish data \<Longrightarrow> \<not> truthy (js_get data ''token'') \<Longrightarrow> store_token data w = (Inr data, w)"
  by (simp add: store_token_def getprop_def)

text \<open>
  C9, as stated, fails on one body: a successful response whose body is the JSON value
  \<open>null\<close> has no token, and \<open>login\<close> and \<open>verifyOTP\<close> do not return it: reading
  \<open>data.token\<close> throws.
\<close>

theorem login_null_body_counterexample:
  "fst (login (always (answer 200 ''OK'' JNull)) ''a@b.c'' ''secret'' ''consumer'' fresh)
     = Inl TypeError \<and>
   fst (verifyOTP (always (answer 200 ''OK'' JNull)) ''a@b.c'' ''123456'' ''consumer'' fresh)
     = Inl TypeError"
  by (simp add: login_def verifyOTP_def fetch_handle_def fetch_def always_def answer_def
        handleResponse_def response_json_def ok_def store_token_def getprop_def)

text \<open>
  C9, amended: \<open>verifyOTP\<close> and \<open>login\<close> change the secure store only when the response is
  successful and its parsed body has a truthy \<open>token\<close> field; for every successful response
  whose body is not null and has no truthy token they return the body, and the device is
  as before but for the one request issued.
\<close>

theorem token_stored_only_when_truthy:
  "(secure (snd (login be email password role w)) \<noteq> secure w \<longrightarrow>
      (\<exists>response data. be (login_request email password role) = Inr response \<and> ok response \<and>
         json_body response = Some data \<and> truthy (js_get data ''token''))) \<and>
   (secure (snd (verifyOTP be email otp role w)) \<noteq> secure w \<longrightarrow>
      (\<exists>response data. be (verifyOTP_request email otp role) = Inr response \<and> ok response \<and>
         json_body response = Some data \<and> truthy (js_get data ''token''))) \<and>
   (be (login_request email password role) = Inr response \<and> ok response \<and>
    json_body response = Some data \<and> data \<noteq> JNull \<and> data \<noteq> JUndefined \<and>
    \<not> truthy (js_get data ''token'') \<longrightarrow>
      login be email password role w
        = (Inr data, w\<lparr>sent := sent w @ [login_request email password role]\<rparr>)) \<and>
   (be (verifyOTP_request email otp role) = Inr response' \<and> ok response' \<and>
    json_body response' = Some data' \<and> data' \<noteq> JNull \<and> data' \<noteq> JUndefined \<and>
    \<not> truthy (js_get data' ''token'') \<longrightarrow>
      verifyOTP be email otp role w
        = (Inr data', w\<lparr>sent := sent w @ [verifyOTP_request email otp role]\<rparr>))"
proof (intro conjI impI)
  assume ch: "secure (snd (login be email password role w)) \<noteq> secure w"
  then obtain data where d: "fst (fetch_handle be (login_request email password role) w) = Inr data"
    and st: "secure (snd (store_token data w)) \<noteq> secure w"
    by (auto simp add: login_secure split: sum.splits)
  from fetch_handle_Inr [OF d] store_token_changes [OF st]
  show "\<exists>response data. be (login_request email password role) = Inr response \<and> ok response \<and>
         json_body response = Some data \<and> truthy (js_get data ''token'')" by blast
next
  assume ch: "secure (snd (verifyOTP be email otp role w)) \<noteq> secure w"
  then obtain data where d: "fst (fetch_handle be (verifyOTP_request email otp role) w) = Inr data"
    and st: "secure (snd (store_token data w)) \<noteq> secure w"
    by (auto simp add: verifyOTP_secure split: sum.splits)
  from fetch_handle_Inr [OF d] store_token_changes [OF st]
  show "\<exists>response data. be (verifyOTP_request email otp role) = Inr response \<and> ok response \<and>
         json_body response = Some data \<and> truthy (js_get data ''token'')" by blast
next
  assume a: "be (login_request email password role) = Inr response \<and> ok response \<and>
    json_body response = Some data \<and> data \<noteq> JNull \<and> data \<noteq> JUndefined \<and>
    \<not> truthy (js_get data ''token'')"
  then have "\<not> nullish data" by (cases data) simp_all
  with a show "login be email password role w
        = (Inr data, w\<lparr>sent := sent w @ [login_request email password role]\<rparr>)"
    by (simp add: login_def fetch_handle_ok store_token_no_token)
next
  assume a: "be (verifyOTP_request email otp role) = Inr response' \<and> ok response' \<and>
    json_body response' = Some data' \<and> data' \<noteq> JNull \<and> data' \<noteq> JUndefined \<and>
    \<not> truthy (js_get data' ''token'')"
  then have "\<not> nullish data'" by (cases data') simp_all
  with a show "verifyOTP be email otp role w
        = (Inr data', w\<lparr>sent := sent w @ [verifyOTP_request email otp role]\<rparr>)"
    by (simp add: verifyOTP_def fetch_handle_ok store_token_no_token)
qed

theorem token_stored_only_when_truthy_witness:
  "secure (snd (login (always (answer 200 ''OK'' (JObj [(''token'', JStr ''abc'')])))
                  ''a@b.c'' ''secret'' ''consumer'' fresh)) \<noteq> secure fresh \<and>
   truthy (js_get (JObj [(''token'', JStr ''abc'')]) ''token'') \<and>
   login (always (answer 200 ''OK'' (JObj [(''message'', JStr ''pending approval'')])))
         ''a@b.c'' ''secret'' ''salon'' fresh
     = (Inr (JObj [(''message'', JStr ''pending approval'')]),
        fresh\<lparr>sent := [login_request ''a@b.c'' ''secret'' ''salon'']\<rparr>) \<and>
   verifyOTP (always (answer 200 ''OK'' (JObj [(''token'', JStr [])])))
         ''a@b.c'' ''123456'' ''salon'' fresh
     = (Inr (JObj [(''token'', JStr [])]),
        fresh\<lparr>sent := [verifyOTP_request ''a@b.c'' ''123456'' ''salon'']\<rparr>)"
  using token_stored_only_when_truthy
          [of "always (answer 200 ''OK'' (JObj [(''message'', JStr ''pending approval'')]))"
              "''a@b.c''" "''secret''" "''salon''" fresh "''123456''"
              "answer 200 ''OK'' (JObj [(''message'', JStr ''pending approval'')])"
              "JObj [(''message'', JStr ''pending approval'')]"
              "answer 200 ''OK'' (JObj [(''message'', JStr ''pending approval'')])"
              "JObj [(''message'', JStr ''pending approval'')]"]
        token_stored_only_when_truthy
          [of "always (answer 200 ''OK'' (JObj [(''token'', JStr [])]))"
              "''a@b.c''" "''secret''" "''salon''" fresh "''123456''"
              "answer 200 ''OK'' (JObj [(''token'', JStr [])])"
              "JObj [(''token'', JStr [])]"
              "answer 200 ''OK'' (JObj [(''token'', JStr [])])"
              "JObj [(''token'', JStr [])]"]
  by (simp add: always_def answer_def ok_def fresh_def login_secure fetch_handle_def fetch_def
        handleResponse_def response_json_def store_token_secure fun_eq_iff)

subsection \<open>Profile services require a token\<close>

lemmas profile_defs =
  createUserProfile_def getUserProfile_def updateUserProfile_def deleteUserProfile_def
  createSalonProfile_def getSalonProfile_def updateSalonProfile_def deleteSalonProfile_def
  createSalonService_def getSalonServices_def getSalonService_def updateSalonService_def
  deleteSalonService_def

lemma require_token_None:
  "secure w ''userToken'' = None \<Longrightarrow> require_token w = Inl (JsError ''Not authenticated'')"
  by (simp add: require_token_def getToken_eq)

lemma require_token_Some:
  "secure w ''userToken'' = Some token \<Longrightarrow> token \<noteq> [] \<Longrightarrow> require_token w = Inr token"
  by (simp add: require_token_def getToken_eq)

lemma fetch_handle_snd:
  "fetch_handle be rq w = (r, w') \<Longrightarrow> w' = w\<lparr>sent := sent w @ [rq]\<rparr>"
  using fetch_handle_world [of be rq w] by simp

lemma require_token_empty:
  "secure w ''userToken'' = Some [] \<Longrightarrow> require_token w = Inl (JsError ''Not authenticated'')"
  by (simp add: require_token_def getToken_eq)

lemma no_token_no_call:
  "secure w ''userToken'' = None \<or> secure w ''userToken'' = Some [] \<Longrightarrow>
     call be op w = (Inl (JsError ''Not authenticated''), w)"
  by (cases op) (auto simp add: profile_defs require_token_None require_token_empty)

lemma token_sent_as_bearer:
  assumes "secure w ''userToken'' = Some token" "token \<noteq> []"
  shows "\<exists>rq. sent (snd (call be op w)) = sent w @ [rq] \<and>
              map_of (rq_headers rq) ''Authorization'' = Some (''Bearer '' @ token)"
  using require_token_Some [OF assms]
  by (cases op)
     (auto simp add: profile_defs fetch_handle_world bearer_def headers_def Let_def
           split: prod.splits sum.splits jsval.splits dest!: fetch_handle_snd)

text \<open>The application never stores an empty token: no session operation makes the stored
  token the empty string.\<close>

lemma perform_token_nonempty:
  assumes "secure w ''userToken'' \<noteq> Some []"
  shows "secure (perform op w) ''userToken'' \<noteq> Some []"
proof (cases op)
  case Logout
  then show ?thesis by (simp add: logout_def deleteItemAsync_def valid_key_userToken TOKEN_KEY_def)
next
  case (Login be email password role)
  with assms show ?thesis
    by (auto simp add: login_secure store_token_secure split: sum.splits jsval.splits if_splits)
next
  case (VerifyOTP be email otp role)
  with assms show ?thesis
    by (auto simp add: verifyOTP_secure store_token_secure split: sum.splits jsval.splits if_splits)
qed (use assms in \<open>simp_all add: setUserType_def setItemAsync_def valid_key_userType\<close>)

text \<open>
  C5: every profile-service operation on a device without a stored token throws
  \<open>Not authenticated\<close> and leaves the device as it was, so nothing is sent; with a token
  stored it issues one request whose \<open>Authorization\<close> header is \<open>Bearer\<close> and the token.
  (An empty string under the token's key counts as no token.)
\<close>

theorem profile_calls_need_token:
  "(secure w ''userToken'' = None \<or> secure w ''userToken'' = Some [] \<longrightarrow>
      call be op w = (Inl (JsError ''Not authenticated''), w)) \<and>
   (secure w ''userToken'' = Some token \<and> token \<noteq> [] \<longrightarrow>
      (\<exists>rq. sent (snd (call be op w)) = sent w @ [rq] \<and>
            map_of (rq_headers rq) ''Authorization'' = Some (''Bearer '' @ token)))"
  using no_token_no_call [of w be op] token_sent_as_bearer [of w token be op] by blast

theorem profile_calls_need_token_witness:
  "call (always (answer 200 ''OK'' (JObj []))) (DeleteSalonService ''7'') fresh
     = (Inl (JsError ''Not authenticated''), fresh) \<and>
   (\<exists>rq. sent (snd (call (always (answer 200 ''OK'' (JObj []))) GetSalonProfile
                       (perform (Login (always (answer 200 ''OK'' (JObj [(''token'', JStr ''abc'')])))
                                   ''a@b.c'' ''secret'' ''salon'') fresh)))
            = [login_request ''a@b.c'' ''secret'' ''salon''] @ [rq] \<and>
          map_of (rq_headers rq) ''Authorization'' = Some ''Bearer abc'')"
proof -
  let ?w = "perform (Login (always (answer 200 ''OK'' (JObj [(''token'', JStr ''abc'')])))
                       ''a@b.c'' ''secret'' ''salon'') fresh"
  have none: "secure fresh ''userToken'' = None" by (simp add: fresh_def)
  have tok: "secure ?w ''userToken'' = Some ''abc''"
    by (simp add: login_secure store_token_secure fetch_handle_def fetch_def always_def
          answer_def handleResponse_def response_json_def ok_def fresh_def)
  have snt: "sent ?w = [login_request ''a@b.c'' ''secret'' ''salon'']"
    by (simp add: login_def store_token_sent fetch_handle_def fetch_def always_def
          answer_def handleResponse_def response_json_def ok_def fresh_def
          store_token_def getprop_def setItemAsync_def valid_key_userToken TOKEN_KEY_def)
  from none tok snt
    profile_calls_need_token [of fresh "always (answer 200 ''OK'' (JObj []))"
                                "DeleteSalonService ''7''" "''abc''"]
    profile_calls_need_token [of ?w "always (answer 200 ''OK'' (JObj []))" GetSalonProfile "''abc''"]
  show ?thesis by simp
qed

subsection \<open>getImageUri\<close>

text \<open>
  C10, as stated, fails twice. The result is what the chosen property holds, so an object
  whose \<open>uri\<close> is a number gives a number, not a string; and a property that is present
  but empty is passed over for the next one.
\<close>

theorem getImageUri_nonstring_counterexample:
  "getImageUri (JObj [(''uri'', JNum 5)]) = JNum 5 \<and> \<not> is_string (JNum 5) \<and>
   map_of [(''uri'', JStr []), (''url'', JStr ''http://x/a.png'')] ''uri'' = Some (JStr []) \<and>
   getImageUri (JObj [(''uri'', JStr []), (''url'', JStr ''http://x/a.png'')])
     = JStr ''http://x/a.png''"
  by (simp add: getImageUri_def)

lemma js_optget_eq: "js_optget v k = js_get v k"
  by (cases v) (simp_all add: js_optget_def)

lemma getImageUri_primitive:
  "getImageUri (JStr s) = JStr s \<and>
   getImageUri JNull = JStr [] \<and> getImageUri JUndefined = JStr [] \<and>
   getImageUri (JNum n) = JStr [] \<and> getImageUri (JBool b) = JStr [] \<and>
   getImageUri (JArr xs) = JStr []"
  by (simp add: getImageUri_def)

lemma getImageUri_object:
  "getImageUri (JObj kvs) =
     (let img = JObj kvs in
      if truthy (js_get img ''uri'') then js_get img ''uri''
      else if truthy (js_get img ''url'') then js_get img ''url''
      else if truthy (js_get img ''source'') then
        (if is_string (js_get img ''source'') then js_get img ''source''
         else if truthy (js_get (js_get img ''source'') ''uri'')
              then js_get (js_get img ''source'') ''uri''
         else JStr [])
      else if truthy (js_get img ''path'') then js_get img ''path''
      else JStr [])"
  by (simp add: getImageUri_def js_or_def js_optget_eq Let_def del: js_get.simps)

lemma getImageUri_string:
  assumes "string_or_absent (js_get (JObj kvs) ''uri'')"
    and "string_or_absent (js_get (JObj kvs) ''url'')"
    and "string_or_absent (js_get (JObj kvs) ''path'')"
    and "is_string (js_get (JObj kvs) ''source'') \<or>
         string_or_absent (js_get (js_get (JObj kvs) ''source'') ''uri'')"
  shows "is_string (getImageUri (JObj kvs))"
  using assms
  by (auto simp add: getImageUri_object string_or_absent_def Let_def simp del: js_get.simps)

text \<open>
  C10, amended: \<open>getImageUri\<close> is total; a string is returned unchanged; null, undefined,
  numbers, booleans and arrays give the empty string; an object gives the first truthy of
  its \<open>uri\<close> and \<open>url\<close>, else, when its \<open>source\<close> is truthy, the source if that is a string
  and otherwise the source's \<open>uri\<close> if truthy and the empty string if not, else its
  \<open>path\<close> if truthy, else the empty string. The result is a string whenever those
  properties hold strings where they hold anything truthy.
\<close>

theorem getImageUri_first_truthy:
  "getImageUri (JStr s) = JStr s \<and>
   getImageUri JNull = JStr [] \<and> getImageUri JUndefined = JStr [] \<and>
   getImageUri (JNum n) = JStr [] \<and> getImageUri (JBool b) = JStr [] \<and>
   getImageUri (JArr xs) = JStr [] \<and>
   (truthy (js_get (JObj kvs) ''uri'') \<longrightarrow> getImageUri (JObj kvs) = js_get (JObj kvs) ''uri'') \<and>
   (\<not> truthy (js_get (JObj kvs) ''uri'') \<and> truthy (js_get (JObj kvs) ''url'') \<longrightarrow>
      getImageUri (JObj kvs) = js_get (JObj kvs) ''url'') \<and>
   (\<not> truthy (js_get (JObj kvs) ''uri'') \<and> \<not> truthy (js_get (JObj kvs) ''url'') \<and>
    truthy (js_get (JObj kvs) ''source'') \<longrightarrow>
      getImageUri (JObj kvs) =
        (if is_string (js_get (JObj kvs) ''source'') then js_get (JObj kvs) ''source''
         else if truthy (js_get (js_get (JObj kvs) ''source'') ''uri'')
              then js_get (js_get (JObj kvs) ''source'') ''uri''
         else JStr [])) \<and>
   (\<not> truthy (js_get (JObj kvs) ''uri'') \<and> \<not> truthy (js_get (JObj kvs) ''url'') \<and>
    \<not> truthy (js_get (JObj kvs) ''source'') \<longrightarrow>
      getImageUri (JObj kvs) =
        (if truthy (js_get (JObj kvs) ''path'') then js_get (JObj kvs) ''path'' else JStr [])) \<and>
   (string_or_absent (js_get (JObj kvs) ''uri'') \<and> string_or_absent (js_get (JObj kvs) ''url'') \<and>
    string_or_absent (js_get (JObj kvs) ''path'') \<and>
    (is_string (js_get (JObj kvs) ''source'') \<or>
     string_or_absent (js_get (js_get (JObj kvs) ''source'') ''uri'')) \<longrightarrow>
      is_string (getImageUri (JObj kvs)))"
  using getImageUri_primitive [of s n b xs] getImageUri_string [of kvs]
  by (simp add: getImageUri_object Let_def del: js_get.simps)

theorem getImageUri_first_truthy_witness:
  "getImageUri (JObj [(''url'', JStr ''http://x/a.png''), (''path'', JStr ''/a.png'')])
     = JStr ''http://x/a.png'' \<and>
   getImageUri (JObj [(''source'', JObj [(''uri'', JStr ''file:///a.jpg'')])])
     = JStr ''file:///a.jpg'' \<and>
   getImageUri (JObj [(''path'', JStr ''/a.png'')]) = JStr ''/a.png'' \<and>
   is_string (getImageUri (JObj [(''source'', JObj [(''uri'', JStr ''file:///a.jpg'')])]))"
  using getImageUri_first_truthy
          [of _ _ _ _ "[(''url'', JStr ''http://x/a.png''), (''path'', JStr ''/a.png'')]"]
        getImageUri_first_truthy
          [of _ _ _ _ "[(''source'', JObj [(''uri'', JStr ''file:///a.jpg'')])]"]
        getImageUri_first_truthy
          [of _ _ _ _ "[(''path'', JStr ''/a.png'')]"]
  by (simp add: string_or_absent_def)

subsection \<open>filterServices\<close>

lemma map_of_replace:
  "map_of (map (\<lambda>(k', v). if k' = k then (k', x) else (k', v)) kvs) j =
     (if j = k \<and> k \<in> fst ` set kvs then Some x else map_of kvs j)"
proof (induction kvs arbitrary: j)
  case Nil
  then show ?case by simp
next
  case (Cons p kvs)
  obtain k0 v0 where p: "p = (k0, v0)" by (cases p)
  show ?case
  proof (cases "k0 = k")
    case True
    with p Cons.IH show ?thesis by simp
  next
    case False
    with p Cons.IH show ?thesis by simp
  qed
qed

lemma map_of_set:
  "map_of (if k \<in> fst ` set kvs then map (\<lambda>(k', v). if k' = k then (k', x) else (k', v)) kvs
           else kvs @ [(k, x)]) = (map_of kvs)(k \<mapsto> x)"
proof (cases "k \<in> fst ` set kvs")
  case True
  then show ?thesis by (simp add: fun_eq_iff map_of_replace)
next
  case False
  then have "map_of kvs k = None" by (simp add: map_of_eq_None_iff)
  with False show ?thesis
    by (auto simp add: fun_eq_iff map_add_def split: option.splits)
qed

lemma map_of_delete:
  "map_of (filter (\<lambda>(k', v). k' \<noteq> k) kvs) = (map_of kvs)(k := None)"
  by (induction kvs) (auto simp add: fun_eq_iff)

lemma js_get_set_same: "js_get (js_set (JObj kvs) k x) k = x"
  by (simp add: map_of_set del: map_of_eq_None_iff)

lemma js_get_set_other: "k' \<noteq> k \<Longrightarrow> js_get (js_set v k x) k' = js_get v k'"
  by (cases v) (simp_all add: map_of_set)

lemma js_get_delete_same: "js_get (js_delete v k) k = JUndefined"
  by (cases v) (simp_all add: map_of_delete)

lemma js_get_delete_other: "k' \<noteq> k \<Longrightarrow> js_get (js_delete v k) k' = js_get v k'"
  by (cases v) (simp_all add: map_of_delete)

lemma js_set_object: "\<exists>kvs'. js_set (JObj kvs) k x = JObj kvs'"
  by simp

lemma map_throwing_Inr:
  "map_throwing f xs = Inr ys \<Longrightarrow>
     length ys = length xs \<and> (\<forall>i<length xs. f (xs ! i) = Inr (ys ! i))"
proof (induction xs arbitrary: ys)
  case Nil
  then show ?case by simp
next
  case (Cons x xs)
  then obtain y ys' where y: "f x = Inr y" and ys': "map_throwing f xs = Inr ys'"
    and ys: "ys = y # ys'"
    by (auto split: sum.splits)
  from Cons.IH [OF ys'] y ys show ?case
    by (auto simp add: nth_Cons split: nat.splits)
qed

lemma map_throwing_total:
  "\<forall>x \<in> set xs. \<exists>y. f x = Inr y \<Longrightarrow> \<exists>ys. map_throwing f xs = Inr ys"
  by (induction xs) auto


lemma salon_portfolio_total:
  "well_shaped (JObj kvs) \<Longrightarrow>
     \<exists>p. salon_portfolio (js_get (js_get (JObj kvs) ''Salon'') ''SalonProfile'') = Inr p"
  by (auto simp add: well_shaped_def salon_portfolio_def js_optget_eq js_or_def Let_def
        simp del: js_get.simps split: jsval.splits)

lemma process_service_total:
  assumes "well_shaped service"
  shows "\<exists>r. process_service service = Inr r"
proof -
  from assms obtain kvs where s: "service = JObj kvs"
    by (auto simp add: well_shaped_def split: jsval.splits)
  with assms obtain p where
    p: "salon_portfolio (js_get (js_get (JObj kvs) ''Salon'') ''SalonProfile'') = Inr p"
    using salon_portfolio_total by blast
  show ?thesis
    using p unfolding s
    by (simp add: process_service_def getprop_def Let_def js_get_set_other del: js_get.simps js_set.simps)
qed

lemma with_image_other: "k \<noteq> ''illustrationImage'' \<Longrightarrow> js_get (with_image s) k = js_get s k"
  by (simp add: with_image_def js_get_set_other)

lemma process_service_unfold:
  "process_service s =
     (if nullish s then Inl TypeError
      else if truthy (js_get s ''Salon'') then
        (case salon_portfolio (js_get (js_get s ''Salon'') ''SalonProfile'') of
           Inl e \<Rightarrow> Inl e
         | Inr p \<Rightarrow> Inr (js_delete (js_set (with_image s) ''salon'' (flat_salon s p)) ''Salon''))
      else Inr (with_image s))"
  by (simp add: process_service_def getprop_def Let_def js_get_set_other js_optget_eq
        with_image_def flat_salon_def del: js_get.simps js_set.simps js_delete.simps
        cong: sum.case_cong)

lemma process_service_result:
  assumes "process_service s = Inr r"
  shows "(truthy (js_get s ''Salon'') \<longrightarrow>
            js_get (js_get r ''salon'') ''name''
              = (if truthy (js_get (js_get (js_get s ''Salon'') ''SalonProfile'') ''name'')
                 then js_get (js_get (js_get s ''Salon'') ''SalonProfile'') ''name'' else JStr []) \<and>
            js_get (js_get r ''salon'') ''address''
              = (if truthy (js_get (js_get (js_get s ''Salon'') ''SalonProfile'') ''address'')
                 then js_get (js_get (js_get s ''Salon'') ''SalonProfile'') ''address'' else JStr []) \<and>
            js_get (js_get r ''salon'') ''rating'' = js_get (js_get s ''Salon'') ''rating'' \<and>
            js_get r ''Salon'' = JUndefined) \<and>
         (\<forall>k. k \<noteq> ''illustrationImage'' \<and> k \<noteq> ''salon'' \<and> k \<noteq> ''Salon'' \<longrightarrow>
            js_get r k = js_get s k)"
proof (cases "truthy (js_get s ''Salon'')")
  case True
  then obtain kvs where s: "s = JObj kvs" by (cases s) simp_all
  obtain kvs1 where s1: "with_image s = JObj kvs1"
    unfolding with_image_def s by (cases "truthy (js_get (JObj kvs) ''illustrationImage'')") simp_all
  from assms True obtain p where
    r: "r = js_delete (js_set (with_image s) ''salon'' (flat_salon s p)) ''Salon''"
    by (auto simp add: process_service_unfold split: if_splits sum.splits)
  have salon: "js_get r ''salon'' = flat_salon s p"
    unfolding r s1 by (simp add: js_get_delete_other js_get_set_same del: js_get.simps js_set.simps js_delete.simps)
  have gone: "js_get r ''Salon'' = JUndefined"
    unfolding r by (rule js_get_delete_same)
  have rest: "\<And>k. k \<noteq> ''illustrationImage'' \<and> k \<noteq> ''salon'' \<and> k \<noteq> ''Salon'' \<Longrightarrow> js_get r k = js_get s k"
    unfolding r by (simp add: js_get_delete_other js_get_set_other with_image_other del: js_get.simps js_set.simps js_delete.simps)
  show ?thesis
    using True gone rest
    by (simp add: salon flat_salon_def js_or_def)
next
  case False
  with assms have "r = with_image s"
    by (auto simp add: process_service_unfold split: if_splits)
  with False show ?thesis by (simp add: with_image_other)
qed


lemma process_services_array:
  assumes "js_get data ''services'' = JArr services"
  shows "process_services data =
           (case map_throwing process_service services of
              Inl e \<Rightarrow> Inl e
            | Inr services' \<Rightarrow> Inr (JArr services'))"
proof -
  from assms have "truthy data" by (cases data) simp_all
  with assms show ?thesis by (simp add: process_services_def)
qed

lemma filterServices_ok:
  assumes "be (filter_request filterParams (secure w ''userToken'')) = Inr response"
    and "ok response" and "json_body response = Some data"
  shows "fst (filterServices be filterParams w) = process_services data"
  using assms by (simp add: filterServices_def getToken_eq fetch_handle_ok)

text \<open>
  C6: for every backend response whose body holds a \<open>services\<close> array, whatever
  \<open>filterServices\<close> returns is an array of the same length whose i-th record is the i-th
  record received: every property other than \<open>illustrationImage\<close>, \<open>salon\<close> and \<open>Salon\<close> is
  as received, and a record that carried a \<open>Salon\<close> has a \<open>salon\<close> whose name and address
  are those of the nested \<open>SalonProfile\<close> (the empty string when missing), whose rating is the
  \<open>Salon\<close>'s, and has no \<open>Salon\<close> any more. It does return when the response is 2xx and
  every record is well shaped.
\<close>

theorem filterServices_flattens_salon:
  assumes "be (filter_request filterParams (secure w ''userToken'')) = Inr response"
    and "json_body response = Some data"
    and "js_get data ''services'' = JArr services"
  shows "(ok response \<and> list_all well_shaped services \<longrightarrow>
            (\<exists>rs. fst (filterServices be filterParams w) = Inr (JArr rs))) \<and>
         (\<forall>result. fst (filterServices be filterParams w) = Inr result \<longrightarrow>
            (\<exists>rs. result = JArr rs \<and> length rs = length services \<and>
               (\<forall>i<length services.
                  (truthy (js_get (services ! i) ''Salon'') \<longrightarrow>
                     js_get (js_get (rs ! i) ''salon'') ''name''
                       = (if truthy (js_get (js_get (js_get (services ! i) ''Salon'') ''SalonProfile'') ''name'')
                          then js_get (js_get (js_get (services ! i) ''Salon'') ''SalonProfile'') ''name''
                          else JStr []) \<and>
                     js_get (js_get (rs ! i) ''salon'') ''address''
                       = (if truthy (js_get (js_get (js_get (services ! i) ''Salon'') ''SalonProfile'') ''address'')
                          then js_get (js_get (js_get (services ! i) ''Salon'') ''SalonProfile'') ''address''
                          else JStr []) \<and>
                     js_get (js_get (rs ! i) ''salon'') ''rating''
                       = js_get (js_get (services ! i) ''Salon'') ''rating'' \<and>
                     js_get (rs ! i) ''Salon'' = JUndefined) \<and>
                  (\<forall>k. k \<noteq> ''illustrationImage'' \<and> k \<noteq> ''salon'' \<and> k \<noteq> ''Salon'' \<longrightarrow>
                     js_get (rs ! i) k = js_get (services ! i) k))))"
proof -
  have run: "fst (filterServices be filterParams w) =
          (if ok response then
             (case map_throwing process_service services of
                Inl e \<Rightarrow> Inl e
              | Inr services' \<Rightarrow> Inr (JArr services'))
           else fst (fetch_handle be (filter_request filterParams (secure w ''userToken'')) w))"
    using assms
    by (auto simp add: filterServices_ok process_services_array filterServices_def getToken_eq
          fetch_handle_def fetch_def handleResponse_def response_json_def)
  show ?thesis
  proof (intro conjI impI allI)
  assume "ok response \<and> list_all well_shaped services"
  then have okr: "ok response" and "list_all well_shaped services" by simp_all
  then have "\<forall>s \<in> set services. \<exists>r. process_service s = Inr r"
    by (simp add: list_all_iff process_service_total)
  then obtain rs where "map_throwing process_service services = Inr rs"
    using map_throwing_total by blast
  with okr show "\<exists>rs. fst (filterServices be filterParams w) = Inr (JArr rs)"
    by (simp add: run)
next
  fix result
  assume "fst (filterServices be filterParams w) = Inr result"
  then obtain rs where rs: "map_throwing process_service services = Inr rs"
    and result: "result = JArr rs"
    using assms
    by (auto simp add: run fetch_handle_def fetch_def handleResponse_def response_json_def
          split: sum.splits if_splits)
  from map_throwing_Inr [OF rs]
  have len: "length rs = length services"
    and each: "\<And>i. i < length services \<Longrightarrow> process_service (services ! i) = Inr (rs ! i)"
    by simp_all
  show "\<exists>rs. result = JArr rs \<and> length rs = length services \<and>
               (\<forall>i<length services.
                  (truthy (js_get (services ! i) ''Salon'') \<longrightarrow>
                     js_get (js_get (rs ! i) ''salon'') ''name''
                       = (if truthy (js_get (js_get (js_get (services ! i) ''Salon'') ''SalonProfile'') ''name'')
                          then js_get (js_get (js_get (services ! i) ''Salon'') ''SalonProfile'') ''name''
                          else JStr []) \<and>
                     js_get (js_get (rs ! i) ''salon'') ''address''
                       = (if truthy (js_get (js_get (js_get (services ! i) ''Salon'') ''SalonProfile'') ''address'')
                          then js_get (js_get (js_get (services ! i) ''Salon'') ''SalonProfile'') ''address''
                          else JStr []) \<and>
                     js_get (js_get (rs ! i) ''salon'') ''rating''
                       = js_get (js_get (services ! i) ''Salon'') ''rating'' \<and>
                     js_get (rs ! i) ''Salon'' = JUndefined) \<and>
                  (\<forall>k. k \<noteq> ''illustrationImage'' \<and> k \<noteq> ''salon'' \<and> k \<noteq> ''Salon'' \<longrightarrow>
                     js_get (rs ! i) k = js_get (services ! i) k))"
    using result len process_service_result [OF each] by blast
  qed
qed

theorem filterServices_flattens_salon_witness:
  "list_all well_shaped [haircut_a, haircut_b] \<and>
   (\<exists>rs. fst (filterServices
                 (always (answer 200 ''OK'' (JObj [(''services'', JArr [haircut_a, haircut_b])])))
                 haircut_params fresh) = Inr (JArr rs) \<and>
      length rs = 2 \<and>
      js_get (js_get (rs ! 0) ''salon'') ''name'' = JStr ''Salon A'' \<and>
      js_get (js_get (rs ! 0) ''salon'') ''address'' = JStr ''1 Main St'' \<and>
      js_get (js_get (rs ! 0) ''salon'') ''rating'' = JNum 4 \<and>
      js_get (rs ! 0) ''Salon'' = JUndefined \<and>
      js_get (rs ! 0) ''id'' = JStr ''s1'' \<and>
      js_get (js_get (rs ! 1) ''salon'') ''name'' = JStr [] \<and>
      js_get (js_get (rs ! 1) ''salon'') ''rating'' = JNum 5 \<and>
      js_get (rs ! 1) ''Salon'' = JUndefined \<and>
      js_get (rs ! 1) ''id'' = JStr ''s2'')"
proof -
  let ?data = "JObj [(''services'', JArr [haircut_a, haircut_b])]"
  let ?be = "always (answer 200 ''OK'' ?data)"
  have h1: "?be (filter_request haircut_params (secure fresh ''userToken'')) = Inr (answer 200 ''OK'' ?data)"
    by (simp add: always_def)
  have h2: "ok (answer 200 ''OK'' ?data)" by (simp add: ok_def answer_def)
  have h3: "json_body (answer 200 ''OK'' ?data) = Some ?data" by (simp add: answer_def)
  have h4: "js_get ?data ''services'' = JArr [haircut_a, haircut_b]" by simp
  have ws: "list_all well_shaped [haircut_a, haircut_b]"
    by (simp add: well_shaped_def haircut_a_def haircut_b_def)
  note th = filterServices_flattens_salon
              [of ?be haircut_params fresh "answer 200 ''OK'' ?data" ?data "[haircut_a, haircut_b]",
               OF h1 h3 h4]
  from th h2 ws obtain rs where run: "fst (filterServices ?be haircut_params fresh) = Inr (JArr rs)"
    by blast
  from th run have len: "length rs = 2" by auto
  from th run have r0:
    "(truthy (js_get ([haircut_a, haircut_b] ! 0) ''Salon'') \<longrightarrow>
        js_get (js_get (rs ! 0) ''salon'') ''name''
          = (if truthy (js_get (js_get (js_get ([haircut_a, haircut_b] ! 0) ''Salon'') ''SalonProfile'') ''name'')
             then js_get (js_get (js_get ([haircut_a, haircut_b] ! 0) ''Salon'') ''SalonProfile'') ''name''
             else JStr []) \<and>
        js_get (js_get (rs ! 0) ''salon'') ''address''
          = (if truthy (js_get (js_get (js_get ([haircut_a, haircut_b] ! 0) ''Salon'') ''SalonProfile'') ''address'')
             then js_get (js_get (js_get ([haircut_a, haircut_b] ! 0) ''Salon'') ''SalonProfile'') ''address''
             else JStr []) \<and>
        js_get (js_get (rs ! 0) ''salon'') ''rating''
          = js_get (js_get ([haircut_a, haircut_b] ! 0) ''Salon'') ''rating'' \<and>
        js_get (rs ! 0) ''Salon'' = JUndefined) \<and>
     js_get (rs ! 0) ''id'' = js_get ([haircut_a, haircut_b] ! 0) ''id''"
    by auto
  from th run have r1:
    "(truthy (js_get ([haircut_a, haircut_b] ! 1) ''Salon'') \<longrightarrow>
        js_get (js_get (rs ! 1) ''salon'') ''name''
          = (if truthy (js_get (js_get (js_get ([haircut_a, haircut_b] ! 1) ''Salon'') ''SalonProfile'') ''name'')
             then js_get (js_get (js_get ([haircut_a, haircut_b] ! 1) ''Salon'') ''SalonProfile'') ''name''
             else JStr []) \<and>
        js_get (js_get (rs ! 1) ''salon'') ''rating''
          = js_get (js_get ([haircut_a, haircut_b] ! 1) ''Salon'') ''rating'' \<and>
        js_get (rs ! 1) ''Salon'' = JUndefined) \<and>
     js_get (rs ! 1) ''id'' = js_get ([haircut_a, haircut_b] ! 1) ''id''"
    by auto
  from r0 have r0': "js_get (js_get (rs ! 0) ''salon'') ''name'' = JStr ''Salon A'' \<and>
      js_get (js_get (rs ! 0) ''salon'') ''address'' = JStr ''1 Main St'' \<and>
      js_get (js_get (rs ! 0) ''salon'') ''rating'' = JNum 4 \<and>
      js_get (rs ! 0) ''Salon'' = JUndefined \<and>
      js_get (rs ! 0) ''id'' = JStr ''s1''"
    by (simp add: haircut_a_def)
  from r1 have r1': "js_get (js_get (rs ! 1) ''salon'') ''name'' = JStr [] \<and>
      js_get (js_get (rs ! 1) ''salon'') ''rating'' = JNum 5 \<and>
      js_get (rs ! 1) ''Salon'' = JUndefined \<and>
      js_get (rs ! 1) ''id'' = JStr ''s2''"
    by (simp add: haircut_b_def)
  from ws run len r0' r1' show ?thesis by blast
qed

subsection \<open>Login and the role of the account\<close>

text \<open>
  C1 does not hold of the code. The login screen asks to log in as a consumer; the backend
  knows the account as a salon and answers with a token and the role \<open>salon\<close>. The handler
  shows the role mismatch and replaces no route, but \<open>login\<close> has stored the token and the
  handler has stored the requested role before it compares the roles: the device that
  held no session is now authenticated, with the refused role as its role tag. A login
  refused for its password, on the same screen, leaves the store as it was.
\<close>

theorem handleLogin_refused_role_keeps_session:
  "isAuthenticated fresh = Inr False \<and> getUserType fresh = None \<and>
   generalError (fst (snd (handleLogin decimal salon_account ''a@b.c'' ''secret'' ''consumer''
                             blank_screen fresh)))
     = JStr ''This account is registered as a salon. Please select the correct user type.'' \<and>
   route (fst (snd (handleLogin decimal salon_account ''a@b.c'' ''secret'' ''consumer''
                      blank_screen fresh))) = None \<and>
   getToken (snd (snd (handleLogin decimal salon_account ''a@b.c'' ''secret'' ''consumer''
                         blank_screen fresh))) = Inr (Some ''abc'') \<and>
   isAuthenticated (snd (snd (handleLogin decimal salon_account ''a@b.c'' ''secret'' ''consumer''
                                blank_screen fresh))) = Inr True \<and>
   getUserType (snd (snd (handleLogin decimal salon_account ''a@b.c'' ''secret'' ''consumer''
                            blank_screen fresh))) = Some ''consumer'' \<and>
   passwordError (fst (snd (handleLogin decimal wrong_password ''a@b.c'' ''secret'' ''consumer''
                              blank_screen fresh))) = ''Incorrect password'' \<and>
   isAuthenticated (snd (snd (handleLogin decimal wrong_password ''a@b.c'' ''secret'' ''consumer''
                                blank_screen fresh))) = Inr False \<and>
   getUserType (snd (snd (handleLogin decimal wrong_password ''a@b.c'' ''secret'' ''consumer''
                            blank_screen fresh))) = None"
  by code_simp

theorem handleLogin_refused_role_keeps_session_witness:
  "isAuthenticated (snd (snd (handleLogin decimal salon_account ''a@b.c'' ''secret'' ''consumer''
                                blank_screen fresh))) = Inr True \<and>
   getUserType (snd (snd (handleLogin decimal salon_account ''a@b.c'' ''secret'' ''consumer''
                            blank_screen fresh))) = Some ''consumer''"
  using handleLogin_refused_role_keeps_session by simp

subsection \<open>Registration of a salon without a license\<close>

text \<open>
  C2: a registration with the role \<open>salon\<close> and no license picked fails validation before
  any request is issued. The handler of the registration screen sets the license error
  and returns without calling \<open>register\<close>: it completes, and the device is as it was, so
  nothing has been sent.
\<close>

theorem handleRegister_requires_license:
  "role = ''salon'' \<and> (businessLicense = None \<or> businessLicense = Some []) \<longrightarrow>
      fst (handleRegister be email password confirmPassword role businessLicense
             (fst (role_effect role businessLicense)) s w) = Inr () \<and>
      licenseError (fst (snd (handleRegister be email password confirmPassword role businessLicense
             (fst (role_effect role businessLicense)) s w)))
        = ''Business license is required for salon registration'' \<and>
      snd (snd (handleRegister be email password confirmPassword role businessLicense
             (fst (role_effect role businessLicense)) s w)) = w"
  by (auto simp add: handleRegister_def validateLicense_def role_effect_def Let_def
        split: prod.splits)

theorem handleRegister_requires_license_witness:
  "fst (handleRegister (always (answer 200 ''OK'' (JObj [(''otpSent'', JBool True)])))
          ''a@b.c'' ''secret'' ''secret'' ''salon'' None
          (fst (role_effect ''salon'' None)) blank_register_screen fresh) = Inr () \<and>
   licenseError (fst (snd (handleRegister (always (answer 200 ''OK'' (JObj [(''otpSent'', JBool True)])))
          ''a@b.c'' ''secret'' ''secret'' ''salon'' None
          (fst (role_effect ''salon'' None)) blank_register_screen fresh)))
     = ''Business license is required for salon registration'' \<and>
   snd (snd (handleRegister (always (answer 200 ''OK'' (JObj [(''otpSent'', JBool True)])))
          ''a@b.c'' ''secret'' ''secret'' ''salon'' None
          (fst (role_effect ''salon'' None)) blank_register_screen fresh)) = fresh \<and>
   sent fresh = []"
  using handleRegister_requires_license
          [of "''salon''" None "always (answer 200 ''OK'' (JObj [(''otpSent'', JBool True)]))"
              "''a@b.c''" "''secret''" "''secret''" blank_register_screen fresh]
  by (simp add: fresh_def)

text \<open>The screen of app/(auth)/register.tsx refuses the same registration with an alert,
  and likewise before any request.\<close>

lemma handleRegister_tsx_requires_license:
  assumes "role = ''salon''" and "businessLicense = None \<or> businessLicense = Some []"
  shows "snd (handleRegister_tsx be email password confirmPassword role businessLicense
                (fst (role_effect role businessLicense)) s w) = w \<and>
         (\<exists>message. tsx_alerts (fst (handleRegister_tsx be email password confirmPassword role
                                        businessLicense (fst (role_effect role businessLicense)) s w))
                       = tsx_alerts s @ [(''Error'', message)])"
  using assms by (auto simp add: handleRegister_tsx_def role_effect_def alert_def)

text \<open>Validation is the screens' work: \<open>register\<close> itself, given the role \<open>salon\<close> and no
  license, sends the JSON request.\<close>

lemma register_without_license_sends_json:
  assumes "businessLicense = None \<or> businessLicense = Some []"
  shows "sent (snd (register be email password role businessLicense w))
           = sent w @ [\<lparr>rq_method = ''POST'', rq_url = API_URL @ ''/auth/register'',
                         rq_headers = headers,
                         rq_body = JsonBody (JObj [(''email'', JStr email),
                                                   (''password'', JStr password),
                                                   (''role'', JStr role)])\<rparr>]"
  using assms by (auto simp add: register_def fetch_handle_world)

end
